theory Spec2Isabelle
  imports Main "HOL-Library.Word"
begin

section \<open>Platform types and result codes\<close>

text \<open>
  The duplication engine talks to the display driver through COM calls that return an
  \<^verbatim>\<open>HRESULT\<close>, a 32-bit signed value; \<^verbatim>\<open>FAILED(hr)\<close> is \<^verbatim>\<open>hr < 0\<close>.
  \<^verbatim>\<open>UINT\<close> is a 32-bit unsigned value whose arithmetic wraps around. The result codes
  below are the platform's (winerror.h); the source names them in its \<^verbatim>\<open>switch\<close>
  statements. Handles to COM objects (device, duplication, textures) are opaque numbers;
  a null pointer is \<open>None\<close>.
\<close>

type_synonym HRESULT = "32 word"
type_synonym UINT = "32 word"
type_synonym handle = nat

definition FAILED :: "HRESULT \<Rightarrow> bool" where
  "FAILED hr = (sint hr < 0)"

definition S_OK :: HRESULT where
  "S_OK = 0"

definition E_INVALIDARG :: HRESULT where
  "E_INVALIDARG = 0x80070057"

definition E_ACCESSDENIED :: HRESULT where
  "E_ACCESSDENIED = 0x80070005"

definition DXGI_ERROR_INVALID_CALL :: HRESULT where
  "DXGI_ERROR_INVALID_CALL = 0x887A0001"

definition DXGI_ERROR_MORE_DATA :: HRESULT where
  "DXGI_ERROR_MORE_DATA = 0x887A0003"

definition DXGI_ERROR_UNSUPPORTED :: HRESULT where
  "DXGI_ERROR_UNSUPPORTED = 0x887A0004"

definition DXGI_ERROR_NOT_CURRENTLY_AVAILABLE :: HRESULT where
  "DXGI_ERROR_NOT_CURRENTLY_AVAILABLE = 0x887A0022"

definition DXGI_ERROR_ACCESS_LOST :: HRESULT where
  "DXGI_ERROR_ACCESS_LOST = 0x887A0026"

definition DXGI_ERROR_WAIT_TIMEOUT :: HRESULT where
  "DXGI_ERROR_WAIT_TIMEOUT = 0x887A0027"

definition DXGI_ERROR_SESSION_DISCONNECTED :: HRESULT where
  "DXGI_ERROR_SESSION_DISCONNECTED = 0x887A0028"

text \<open>A failure code that none of the \<^verbatim>\<open>switch\<close> statements names (winerror.h).\<close>

definition E_FAIL :: HRESULT where
  "E_FAIL = 0x80004005"

text \<open>A success code other than \<^verbatim>\<open>S_OK\<close> (winerror.h).\<close>

definition S_FALSE :: HRESULT where
  "S_FALSE = 1"

record LUID =
  LowPart :: "32 word"
  HighPart :: "32 word"

text \<open>
  The fields of \<^verbatim>\<open>DXGI_OUTDUPL_FRAME_INFO\<close> that the engine reads, and the count of
  accumulated frames.
\<close>

record DXGI_OUTDUPL_FRAME_INFO =
  AccumulatedFrames :: UINT
  PointerPositionVisible :: bool
  TotalMetadataBufferSize :: UINT

section \<open>Data model of the duplication session\<close>

text \<open>
  Modelled from the spec: the enumeration \<^verbatim>\<open>DuplicatorState\<close> is declared in a header
  that is not among the sources (Duplicator.h, Common.h). These are the nine values of the
  spec's data model; the source assigns or tests each of them.
\<close>

datatype State =
    Ready
  | Running
  | AccessLost
  | AccessDenied
  | Unsupported
  | CurrentlyNotAvailable
  | SessionDisconnected
  | InvalidArg
  | Unknown

text \<open>
  Modelled from the spec: \<^verbatim>\<open>Buffer<BYTE>\<close> (Common.h) is not among the sources. The spec
  describes an owned, resizable byte region that grows to the largest size ever requested
  and never shrinks. The model keeps its capacity in bytes; the bytes themselves play no
  part in the engine's control flow.
\<close>

record Buffer =
  capacity :: UINT

text \<open>Modelled from the spec: \<^verbatim>\<open>Buffer::Size()\<close>, the capacity in bytes.\<close>

definition Size :: "Buffer \<Rightarrow> UINT" where
  "Size b = capacity b"

text \<open>Modelled from the spec: \<^verbatim>\<open>Buffer::Empty()\<close>, no byte has been allocated yet.\<close>

definition Empty :: "Buffer \<Rightarrow> bool" where
  "Empty b = (capacity b = 0)"

text \<open>
  Modelled from the spec: \<^verbatim>\<open>Buffer::ExpandIfNeeded(size)\<close> grows the buffer to \<open>size\<close>
  bytes when it is smaller and leaves it alone otherwise.
\<close>

definition ExpandIfNeeded :: "UINT \<Rightarrow> Buffer \<Rightarrow> Buffer" where
  "ExpandIfNeeded n b = (if capacity b < n then b\<lparr>capacity := n\<rparr> else b)"

text \<open>
  The metadata of a frame: the buffer and the byte counts of the move rectangles and of
  the dirty rectangles, as the source reads and writes them (\<^verbatim>\<open>metaData_.buffer\<close>,
  \<^verbatim>\<open>metaData_.moveRectSize\<close>, \<^verbatim>\<open>metaData_.dirtyRectSize\<close>).
\<close>

record Metadata =
  buffer :: Buffer
  moveRectSize :: UINT
  dirtyRectSize :: UINT

text \<open>
  Modelled from the spec: the struct \<^verbatim>\<open>Frame\<close> is declared in the absent header. The
  source builds it positionally,
  \<^verbatim>\<open>Frame { lastFrameId_++, sharedTexture, frameInfo, metaData_ }\<close>; the field names are
  the spec's. The type of the counter and of the id is taken as \<^verbatim>\<open>UINT\<close>, the type
  that Monitor.h gives the frame id it mirrors (\<^verbatim>\<open>UINT lastFrameId_\<close>).
\<close>

record Frame =
  sequenceId :: UINT
  texture :: "handle option"
  frameInfo :: DXGI_OUTDUPL_FRAME_INFO
  metadata :: Metadata

text \<open>
  What the engine does to the outside world, in order: its log lines, its calls to the
  duplication handle and the device context, its calls to the cursor collaborator, and
  the creation and joining of its capture thread.
\<close>

datatype event =
    DebugLog string
  | DebugError string
  | CallReleaseFrame
  | CallAcquireNextFrame UINT
  | CallCopyResource handle
  | CallGetFrameMoveRects UINT UINT
  | CallGetFrameDirtyRects UINT UINT
  | CallSetCursorMonitorId int
  | CallCursorUpdateBuffer
  | CallCursorUpdateTexture handle
  | ThreadJoined
  | ThreadCreated

text \<open>\<^verbatim>\<open>std::thread\<close>: joinable once created, not joinable after \<^verbatim>\<open>join()\<close>.\<close>

datatype thread_handle = NotJoinable | Joinable

text \<open>
  The members of \<^verbatim>\<open>Duplicator\<close> (the source writes them with a trailing underscore,
  which a name cannot have here), followed by three components of its environment: the
  cursor owner registered with the monitor manager, the trace of events, and the number
  of capture threads created and not yet joined.
\<close>

record Duplicator =
  monitorId :: int
  state :: State
  device :: "handle option"
  dupl :: "handle option"
  thread :: thread_handle
  shouldRun :: bool
  isFrameAcquired :: bool
  lastFrameId :: UINT
  metaData :: Metadata
  lastFrame :: Frame
  cursorMonitorId :: int
  trace :: "event list"
  liveThreads :: nat

definition emit :: "event \<Rightarrow> Duplicator \<Rightarrow> Duplicator" where
  "emit ev s = s\<lparr>trace := trace s @ [ev]\<rparr>"

section \<open>Construction\<close>

text \<open>
  The answers of the environment during construction: the result of creating the
  isolated device and the device it yields, the result of querying the output for
  \<^verbatim>\<open>IDXGIOutput1\<close>, the result of \<^verbatim>\<open>DuplicateOutput\<close> and the pointer it stores
  through \<^verbatim>\<open>&dupl_\<close>, the adapter's identity and the renderer's.
\<close>

record init_env =
  createDeviceHr :: HRESULT
  createdDevice :: handle
  outputAsHr :: HRESULT
  duplicateOutputHr :: HRESULT
  duplicateOutputHandle :: "handle option"
  adapterLuid :: LUID
  unityAdapterLuid :: LUID

definition InitializeDevice :: "init_env \<Rightarrow> Duplicator \<Rightarrow> Duplicator" where
  "InitializeDevice e s =
     (let s1 = s\<lparr>device := Some (createdDevice e)\<rparr>
      in if FAILED (createDeviceHr e)
         then (emit (DebugError ''Monitor::Initialize() => IsolatedD3D11Device::Create() failed.'') s1)
                \<lparr>state := Unknown\<rparr>
         else s1)"

definition InitializeDuplication :: "init_env \<Rightarrow> Duplicator \<Rightarrow> Duplicator" where
  "InitializeDuplication e s =
     (if FAILED (outputAsHr e) then s
      else
        let hr = duplicateOutputHr e;
            s1 = s\<lparr>dupl := duplicateOutputHandle e\<rparr>
        in if hr = S_OK then
             emit (DebugLog ''Duplicator::Initialize() => OK.'') (s1\<lparr>state := Ready\<rparr>)
           else if hr = E_INVALIDARG then
             emit (DebugError ''Duplicator::Initialize() => Invalid arguments.'')
               (s1\<lparr>state := InvalidArg\<rparr>)
           else if hr = E_ACCESSDENIED then
             emit (DebugError ''Duplicator::Initialize() => Access denied.'')
               (s1\<lparr>state := AccessDenied\<rparr>)
           else if hr = DXGI_ERROR_UNSUPPORTED then
             emit (DebugError ''Duplicator::Initialize() => Unsupported display.'')
               (s1\<lparr>state := Unsupported\<rparr>)
           else if hr = DXGI_ERROR_NOT_CURRENTLY_AVAILABLE then
             emit (DebugError ''Duplicator::Initialize() => Currently not available.'')
               (s1\<lparr>state := CurrentlyNotAvailable\<rparr>)
           else if hr = DXGI_ERROR_SESSION_DISCONNECTED then
             emit (DebugError ''Duplicator::Initialize() => Session disconnected.'')
               (s1\<lparr>state := SessionDisconnected\<rparr>)
           else
             emit (DebugError ''Duplicator::Render() => Unknown Error.'')
               (s1\<lparr>state := Unknown\<rparr>))"

definition isUnityAdapter :: "init_env \<Rightarrow> bool" where
  "isUnityAdapter e =
     (LowPart (adapterLuid e) = LowPart (unityAdapterLuid e) \<and>
      HighPart (adapterLuid e) = HighPart (unityAdapterLuid e))"

definition CheckUnityAdapter :: "init_env \<Rightarrow> Duplicator \<Rightarrow> Duplicator" where
  "CheckUnityAdapter e s =
     (if isUnityAdapter e then s
      else (emit (DebugError ''Duplicator::CheckUnityAdapter() => The adapter is not same as Unity, and now this case is not supported.'') s)
             \<lparr>state := Unsupported\<rparr>)"

text \<open>
  The constructor. \<open>s\<close> holds the members as their default initialisers leave them
  (the initialisers are in the absent header, so they are a parameter); \<open>m\<close> is the
  monitor's id.
\<close>

definition Constructor :: "int \<Rightarrow> init_env \<Rightarrow> Duplicator \<Rightarrow> Duplicator" where
  "Constructor m e s =
     CheckUnityAdapter e (InitializeDuplication e (InitializeDevice e (s\<lparr>monitorId := m\<rparr>)))"

section \<open>Thread control\<close>

text \<open>
  \<^verbatim>\<open>Stop()\<close> clears the run flag and joins the capture thread when it is joinable.
  \<^verbatim>\<open>join()\<close> returns once that thread has ended; what the thread writes before it
  ends is the work of its own body (\<open>captureThreadEntry\<close>, the ticks,
  \<open>captureThreadExit\<close>) and no part of \<^verbatim>\<open>Stop()\<close>.
\<close>

definition Stop :: "Duplicator \<Rightarrow> Duplicator" where
  "Stop s =
     (let s1 = s\<lparr>shouldRun := False\<rparr>
      in if thread s1 = Joinable
         then (emit ThreadJoined s1)\<lparr>thread := NotJoinable, liveThreads := liveThreads s1 - 1\<rparr>
         else s1)"

text \<open>
  \<^verbatim>\<open>Start()\<close> up to the creation of the thread; the new thread then runs its body on
  its own.
\<close>

definition Start :: "Duplicator \<Rightarrow> Duplicator" where
  "Start s =
     (if state s \<noteq> Ready then s
      else
        let s1 = Stop s
        in (emit ThreadCreated s1)\<lparr>thread := Joinable, liveThreads := liveThreads s1 + 1\<rparr>)"

text \<open>The first two statements of the capture thread's body.\<close>

definition captureThreadEntry :: "Duplicator \<Rightarrow> Duplicator" where
  "captureThreadEntry s = s\<lparr>state := Running, shouldRun := True\<rparr>"

text \<open>The last statement of the capture thread's body, after its loop.\<close>

definition captureThreadExit :: "Duplicator \<Rightarrow> Duplicator" where
  "captureThreadExit s = (if state s = Running then s\<lparr>state := Ready\<rparr> else s)"

definition IsRunning :: "Duplicator \<Rightarrow> bool" where
  "IsRunning s = (state s = Running)"

definition IsError :: "Duplicator \<Rightarrow> bool" where
  "IsError s = (state s \<noteq> Ready \<and> state s \<noteq> Running)"

definition GetState :: "Duplicator \<Rightarrow> State" where
  "GetState s = state s"

text \<open>The getter takes the mutex that also guards the publication; it returns the snapshot.\<close>

definition GetLastFrame :: "Duplicator \<Rightarrow> Frame" where
  "GetLastFrame s = lastFrame s"

section \<open>The tick\<close>

text \<open>
  The answers of the environment during one tick: the results of \<^verbatim>\<open>ReleaseFrame\<close> and
  \<^verbatim>\<open>AcquireNextFrame\<close>, the frame info the latter fills in, the result of converting
  the acquired resource to a texture, the shared texture the device wrapper returns (null
  is \<open>None\<close>), and for each of the two rectangle requests its result and the byte count
  it stores through the size pointer (\<open>None\<close> when it stores nothing).
\<close>

record tick_env =
  releaseFrameHr :: HRESULT
  acquireNextFrameHr :: HRESULT
  acquiredFrameInfo :: DXGI_OUTDUPL_FRAME_INFO
  resourceAsHr :: HRESULT
  compatibleSharedTexture :: "handle option"
  moveRectsHr :: HRESULT
  moveRectsSizeRequired :: "UINT option"
  dirtyRectsHr :: HRESULT
  dirtyRectsSizeRequired :: "UINT option"

text \<open>
  \<^verbatim>\<open>Release()\<close> calls through the duplication handle without a null check of its own;
  its only caller is \<^verbatim>\<open>Duplicate\<close>, after that function's null check.
\<close>

definition Release :: "tick_env \<Rightarrow> Duplicator \<Rightarrow> Duplicator" where
  "Release e s =
     (if \<not> isFrameAcquired s then s
      else
        let hr = releaseFrameHr e;
            s1 = emit CallReleaseFrame s;
            s2 = (if FAILED hr then
                    (if hr = DXGI_ERROR_ACCESS_LOST then
                       (emit (DebugLog ''Duplicator::Duplicate() => DXGI_ERROR_ACCESS_LOST.'') s1)
                         \<lparr>state := AccessLost\<rparr>
                     else if hr = DXGI_ERROR_INVALID_CALL then
                       emit (DebugError ''Duplicator::Duplicate() => DXGI_ERROR_INVALID_CALL.'') s1
                     else
                       emit (DebugError ''Duplicator::Duplicate() => Unknown Error.'')
                         (s1\<lparr>state := Unknown\<rparr>))
                  else s1)
        in s2\<lparr>isFrameAcquired := False\<rparr>)"

definition UpdateCursor :: "handle \<Rightarrow> DXGI_OUTDUPL_FRAME_INFO \<Rightarrow> Duplicator \<Rightarrow> Duplicator" where
  "UpdateCursor tex info s =
     (let s1 = (if PointerPositionVisible info
                then (emit (CallSetCursorMonitorId (monitorId s)) s)
                       \<lparr>cursorMonitorId := monitorId s\<rparr>
                else s)
      in if monitorId s1 = cursorMonitorId s1
         then emit (CallCursorUpdateTexture tex) (emit CallCursorUpdateBuffer s1)
         else s1)"

definition UpdateMoveRects :: "tick_env \<Rightarrow> Duplicator \<Rightarrow> Duplicator" where
  "UpdateMoveRects e s =
     (let m = metaData s;
          hr = moveRectsHr e;
          s1 = emit (CallGetFrameMoveRects (Size (buffer m)) 0) s;
          s2 = s1\<lparr>metaData :=
                 m\<lparr>moveRectSize :=
                     (case moveRectsSizeRequired e of None \<Rightarrow> moveRectSize m | Some n \<Rightarrow> n)\<rparr>\<rparr>
      in if FAILED hr then
           (if hr = DXGI_ERROR_ACCESS_LOST then
              emit (DebugLog ''Duplicator::UpdateMoveRects() => DXGI_ERROR_ACCESS_LOST.'') s2
            else if hr = DXGI_ERROR_MORE_DATA then
              emit (DebugError ''Duplicator::UpdateMoveRects() => DXGI_ERROR_MORE_DATA.'') s2
            else if hr = DXGI_ERROR_INVALID_CALL then
              emit (DebugError ''Duplicator::UpdateMoveRects() => DXGI_ERROR_INVALID_CALL.'') s2
            else if hr = E_INVALIDARG then
              emit (DebugError ''Duplicator::UpdateMoveRects() => E_INVALIDARG.'') s2
            else
              emit (DebugError ''Duplicator::UpdateMoveRects() => Unknown Error.'') s2)
         else s2)"

definition UpdateDirtyRects :: "tick_env \<Rightarrow> Duplicator \<Rightarrow> Duplicator" where
  "UpdateDirtyRects e s =
     (let m = metaData s;
          hr = dirtyRectsHr e;
          s1 = emit (CallGetFrameDirtyRects (Size (buffer m) - moveRectSize m) (moveRectSize m)) s;
          s2 = s1\<lparr>metaData :=
                 m\<lparr>dirtyRectSize :=
                     (case dirtyRectsSizeRequired e of None \<Rightarrow> dirtyRectSize m | Some n \<Rightarrow> n)\<rparr>\<rparr>
      in if FAILED hr then
           (if hr = DXGI_ERROR_ACCESS_LOST then
              emit (DebugLog ''Duplicator::UpdateDirtyRects() => DXGI_ERROR_ACCESS_LOST.'') s2
            else if hr = DXGI_ERROR_MORE_DATA then
              emit (DebugError ''Duplicator::UpdateDirtyRects() => DXGI_ERROR_MORE_DATA.'') s2
            else if hr = DXGI_ERROR_INVALID_CALL then
              emit (DebugError ''Duplicator::UpdateDirtyRects() => DXGI_ERROR_INVALID_CALL.'') s2
            else if hr = E_INVALIDARG then
              emit (DebugError ''Duplicator::UpdateDirtyRects() => E_INVALIDARG.'') s2
            else
              emit (DebugError ''Duplicator::UpdateDirtyRects() => Unknown Error.'') s2)
         else s2)"

definition UpdateMetadata :: "tick_env \<Rightarrow> UINT \<Rightarrow> Duplicator \<Rightarrow> Duplicator" where
  "UpdateMetadata e totalBufferSize s =
     (let m = metaData s;
          s1 = s\<lparr>metaData := m\<lparr>buffer := ExpandIfNeeded totalBufferSize (buffer m)\<rparr>\<rparr>
      in if \<not> Empty (buffer (metaData s1))
         then UpdateDirtyRects e (UpdateMoveRects e s1)
         else s1)"

text \<open>
  \<^verbatim>\<open>Duplicate(timeout)\<close>. The published frame takes the counter's value before the
  increment (\<^verbatim>\<open>lastFrameId_++\<close>).
\<close>

definition Duplicate :: "UINT \<Rightarrow> tick_env \<Rightarrow> Duplicator \<Rightarrow> Duplicator" where
  "Duplicate timeout e s =
     (if dupl s = None \<or> device s = None then s
      else
        let s1 = Release e s;
            hr = acquireNextFrameHr e;
            info = acquiredFrameInfo e;
            s2 = emit (CallAcquireNextFrame timeout) s1
        in if FAILED hr then
             (if hr = DXGI_ERROR_ACCESS_LOST then
                (emit (DebugLog ''Duplicator::Duplicate() => DXGI_ERROR_ACCESS_LOST.'') s2)
                  \<lparr>state := AccessLost\<rparr>
              else if hr = DXGI_ERROR_WAIT_TIMEOUT then s2
              else if hr = DXGI_ERROR_INVALID_CALL then
                emit (DebugError ''Duplicator::Duplicate() => DXGI_ERROR_INVALID_CALL.'') s2
              else if hr = E_INVALIDARG then
                emit (DebugError ''Duplicator::Duplicate() => E_INVALIDARG.'') s2
              else
                emit (DebugError ''Duplicator::Duplicate() => Unknown Error.'')
                  (s2\<lparr>state := Unknown\<rparr>))
           else
             let s3 = s2\<lparr>isFrameAcquired := True\<rparr>
             in if FAILED (resourceAsHr e) then
                  emit (DebugError ''Duplicator::Duplicate() => IDXGIResource could not be converted to ID3D11Texture2D.'') s3
                else
                  (case compatibleSharedTexture e of
                     None \<Rightarrow>
                       emit (DebugError ''Duplicator::Duplicate() => Shared texture is null.'') s3
                   | Some sharedTexture \<Rightarrow>
                       let s4 = emit (CallCopyResource sharedTexture) s3;
                           s5 = UpdateCursor sharedTexture info s4;
                           s6 = UpdateMetadata e (TotalMetadataBufferSize info) s5
                       in s6\<lparr>lastFrame :=
                               \<lparr>sequenceId = lastFrameId s6,
                                texture = Some sharedTexture,
                                frameInfo = info,
                                metadata = metaData s6\<rparr>,
                             lastFrameId := lastFrameId s6 + 1\<rparr>))"

section \<open>Sequences of ticks\<close>

fun ticks :: "UINT \<Rightarrow> tick_env list \<Rightarrow> Duplicator \<Rightarrow> Duplicator" where
  "ticks timeout [] s = s"
| "ticks timeout (e # es) s = ticks timeout es (Duplicate timeout e s)"

text \<open>What \<^verbatim>\<open>GetLastFrame().id\<close> returns after each tick of a sequence.\<close>

fun publishedIds :: "UINT \<Rightarrow> tick_env list \<Rightarrow> Duplicator \<Rightarrow> UINT list" where
  "publishedIds timeout [] s = []"
| "publishedIds timeout (e # es) s =
     sequenceId (GetLastFrame (Duplicate timeout e s)) # publishedIds timeout es (Duplicate timeout e s)"

text \<open>
  The answers of a successful tick: the acquisition and the conversion succeed and a shared
  texture comes back. On a session that has both of its handles, a tick with such answers
  reaches the metadata update and the publication of a snapshot, and no other tick does.
\<close>

definition successful :: "tick_env \<Rightarrow> bool" where
  "successful e =
     (\<not> FAILED (acquireNextFrameHr e) \<and> \<not> FAILED (resourceAsHr e) \<and>
      compatibleSharedTexture e \<noteq> None)"

definition hasHandles :: "Duplicator \<Rightarrow> bool" where
  "hasHandles s = (dupl s \<noteq> None \<and> device s \<noteq> None)"

text \<open>The metadata sizes that the ticks of a sequence request from the buffer.\<close>

definition requestedSizes :: "tick_env list \<Rightarrow> UINT list" where
  "requestedSizes es = map (\<lambda>e. TotalMetadataBufferSize (acquiredFrameInfo e)) (filter successful es)"

text \<open>The calls to the duplication handle's rectangle requests, among the events.\<close>

fun isRectRequest :: "event \<Rightarrow> bool" where
  "isRectRequest (CallGetFrameMoveRects n off) = True"
| "isRectRequest (CallGetFrameDirtyRects n off) = True"
| "isRectRequest ev = False"

section \<open>Sequences of operations\<close>

text \<open>
  The operations that run on one session, in the order in which they take effect: the
  calls of \<^verbatim>\<open>Start()\<close> and \<^verbatim>\<open>Stop()\<close> from the controlling thread, and the steps
  of the capture thread's body.
\<close>

datatype operation =
    CallStart
  | CallStop
  | ThreadEntry
  | ThreadTick UINT tick_env
  | ThreadExit

fun perform :: "operation \<Rightarrow> Duplicator \<Rightarrow> Duplicator" where
  "perform CallStart s = Start s"
| "perform CallStop s = Stop s"
| "perform ThreadEntry s = captureThreadEntry s"
| "perform (ThreadTick timeout e) s = Duplicate timeout e s"
| "perform ThreadExit s = captureThreadExit s"

fun performAll :: "operation list \<Rightarrow> Duplicator \<Rightarrow> Duplicator" where
  "performAll [] s = s"
| "performAll (x # xs) s = performAll xs (perform x s)"

text \<open>
  The thread handle accounts for the capture threads: one is created and not yet joined
  exactly when the handle is joinable.
\<close>

definition oneThread :: "Duplicator \<Rightarrow> bool" where
  "oneThread s = (liveThreads s = (if thread s = Joinable then 1 else 0))"

section \<open>Concrete sessions and answers\<close>

text \<open>
  A session before its constructor runs, used to evaluate the operations on concrete
  inputs. The spec's construction starts from \<open>Ready\<close>; counters are zero, the buffer is
  empty and no cursor owner is registered.
\<close>

definition fresh :: Duplicator where
  "fresh =
     \<lparr>monitorId = 0, state = Ready, device = None, dupl = None, thread = NotJoinable,
      shouldRun = False, isFrameAcquired = False, lastFrameId = 0,
      metaData = \<lparr>buffer = \<lparr>capacity = 0\<rparr>, moveRectSize = 0, dirtyRectSize = 0\<rparr>,
      lastFrame =
        \<lparr>sequenceId = 0, texture = None,
         frameInfo = \<lparr>AccumulatedFrames = 0, PointerPositionVisible = False,
                      TotalMetadataBufferSize = 0\<rparr>,
         metadata = \<lparr>buffer = \<lparr>capacity = 0\<rparr>, moveRectSize = 0, dirtyRectSize = 0\<rparr>\<rparr>,
      cursorMonitorId = - 1, trace = [], liveThreads = 0\<rparr>"

text \<open>A construction in which every call succeeds and the adapter is the renderer's.\<close>

definition init_ok :: init_env where
  "init_ok =
     \<lparr>createDeviceHr = S_OK, createdDevice = 1, outputAsHr = S_OK,
      duplicateOutputHr = S_OK, duplicateOutputHandle = Some 2,
      adapterLuid = \<lparr>LowPart = 7, HighPart = 0\<rparr>,
      unityAdapterLuid = \<lparr>LowPart = 7, HighPart = 0\<rparr>\<rparr>"

definition ready_session :: Duplicator where
  "ready_session = Constructor 0 init_ok fresh"

text \<open>A tick in which every call succeeds: a frame with 4096 bytes of metadata.\<close>

definition tick_ok :: tick_env where
  "tick_ok =
     \<lparr>releaseFrameHr = S_OK, acquireNextFrameHr = S_OK,
      acquiredFrameInfo = \<lparr>AccumulatedFrames = 1, PointerPositionVisible = True,
                           TotalMetadataBufferSize = 4096\<rparr>,
      resourceAsHr = S_OK, compatibleSharedTexture = Some 3,
      moveRectsHr = S_OK, moveRectsSizeRequired = Some 24,
      dirtyRectsHr = S_OK, dirtyRectsSizeRequired = Some 32\<rparr>"

text \<open>The ready session once started, its capture thread having entered its body.\<close>

definition running_session :: Duplicator where
  "running_session = captureThreadEntry (Start ready_session)"

text \<open>The running session after one successful tick: it holds the acquired frame.\<close>

definition held_session :: Duplicator where
  "held_session = Duplicate 16 tick_ok running_session"

section \<open>Evaluation lemmas\<close>

lemmas hresult_defs = S_OK_def E_INVALIDARG_def E_ACCESSDENIED_def DXGI_ERROR_INVALID_CALL_def
  DXGI_ERROR_MORE_DATA_def DXGI_ERROR_UNSUPPORTED_def DXGI_ERROR_NOT_CURRENTLY_AVAILABLE_def
  DXGI_ERROR_ACCESS_LOST_def DXGI_ERROR_WAIT_TIMEOUT_def DXGI_ERROR_SESSION_DISCONNECTED_def
  E_FAIL_def S_FALSE_def

lemma FAILED_codes:
  "\<not> FAILED S_OK" "\<not> FAILED S_FALSE" "FAILED E_INVALIDARG" "FAILED E_ACCESSDENIED"
  "FAILED DXGI_ERROR_INVALID_CALL" "FAILED DXGI_ERROR_MORE_DATA" "FAILED DXGI_ERROR_UNSUPPORTED"
  "FAILED DXGI_ERROR_NOT_CURRENTLY_AVAILABLE" "FAILED DXGI_ERROR_ACCESS_LOST"
  "FAILED DXGI_ERROR_WAIT_TIMEOUT" "FAILED DXGI_ERROR_SESSION_DISCONNECTED" "FAILED E_FAIL"
  by (simp_all add: FAILED_def hresult_defs)

lemmas construction_defs = Constructor_def CheckUnityAdapter_def isUnityAdapter_def
  InitializeDuplication_def InitializeDevice_def emit_def Let_def

lemmas tick_defs = Duplicate_def Release_def UpdateCursor_def UpdateMetadata_def
  UpdateMoveRects_def UpdateDirtyRects_def ExpandIfNeeded_def Empty_def Size_def emit_def Let_def

lemma ready_session_eval:
  "ready_session = fresh\<lparr>device := Some 1, dupl := Some 2,
     trace := [DebugLog ''Duplicator::Initialize() => OK.'']\<rparr>"
  by (simp add: ready_session_def construction_defs init_ok_def fresh_def FAILED_codes)

lemma running_session_eval:
  "running_session = fresh\<lparr>state := Running, device := Some 1, dupl := Some 2,
     thread := Joinable, shouldRun := True,
     trace := [DebugLog ''Duplicator::Initialize() => OK.'', ThreadCreated],
     liveThreads := 1\<rparr>"
  by (simp add: running_session_def captureThreadEntry_def Start_def Stop_def Let_def emit_def
      ready_session_eval fresh_def)

lemma held_session_eval:
  "held_session =
     fresh\<lparr>state := Running, device := Some 1, dupl := Some 2, thread := Joinable,
       shouldRun := True, isFrameAcquired := True, lastFrameId := 1,
       metaData := \<lparr>buffer = \<lparr>capacity = 4096\<rparr>, moveRectSize = 24, dirtyRectSize = 32\<rparr>,
       lastFrame := \<lparr>sequenceId = 0, texture = Some 3,
         frameInfo = \<lparr>AccumulatedFrames = 1, PointerPositionVisible = True,
                      TotalMetadataBufferSize = 4096\<rparr>,
         metadata = \<lparr>buffer = \<lparr>capacity = 4096\<rparr>, moveRectSize = 24, dirtyRectSize = 32\<rparr>\<rparr>,
       cursorMonitorId := 0,
       trace := [DebugLog ''Duplicator::Initialize() => OK.'', ThreadCreated,
         CallAcquireNextFrame 16, CallCopyResource 3, CallSetCursorMonitorId 0,
         CallCursorUpdateBuffer, CallCursorUpdateTexture 3, CallGetFrameMoveRects 4096 0,
         CallGetFrameDirtyRects 4072 24],
       liveThreads := 1\<rparr>"
  by (simp add: held_session_def running_session_eval tick_defs tick_ok_def fresh_def FAILED_codes)

lemma LUID_neq_iff:
  "(a \<noteq> (b::LUID)) = (LowPart a \<noteq> LowPart b \<or> HighPart a \<noteq> HighPart b)"
  by (cases a, cases b) auto

section \<open>Construction: the state table and the adapter check\<close>

text \<open>
  Claim C1. Once the output has answered the query for \<^verbatim>\<open>IDXGIOutput1\<close>, so that
  \<^verbatim>\<open>DuplicateOutput\<close> is called, the state that \<^verbatim>\<open>InitializeDuplication\<close> leaves is
  the one the table gives for the returned code: \<open>S_OK\<close> gives \<open>Ready\<close>, invalid-args
  \<open>InvalidArg\<close>, access-denied \<open>AccessDenied\<close>, unsupported \<open>Unsupported\<close>,
  not-currently-available \<open>CurrentlyNotAvailable\<close>, session-disconnected
  \<open>SessionDisconnected\<close>, and every other code \<open>Unknown\<close>, whatever the state was before.
\<close>

theorem InitializeDuplication_state_table:
  assumes "\<not> FAILED (outputAsHr e)"
  shows "(duplicateOutputHr e = S_OK \<longrightarrow> state (InitializeDuplication e s) = Ready) \<and>
         (duplicateOutputHr e = E_INVALIDARG \<longrightarrow> state (InitializeDuplication e s) = InvalidArg) \<and>
         (duplicateOutputHr e = E_ACCESSDENIED \<longrightarrow> state (InitializeDuplication e s) = AccessDenied) \<and>
         (duplicateOutputHr e = DXGI_ERROR_UNSUPPORTED \<longrightarrow> state (InitializeDuplication e s) = Unsupported) \<and>
         (duplicateOutputHr e = DXGI_ERROR_NOT_CURRENTLY_AVAILABLE \<longrightarrow>
            state (InitializeDuplication e s) = CurrentlyNotAvailable) \<and>
         (duplicateOutputHr e = DXGI_ERROR_SESSION_DISCONNECTED \<longrightarrow>
            state (InitializeDuplication e s) = SessionDisconnected) \<and>
         (duplicateOutputHr e \<notin> {S_OK, E_INVALIDARG, E_ACCESSDENIED, DXGI_ERROR_UNSUPPORTED,
              DXGI_ERROR_NOT_CURRENTLY_AVAILABLE, DXGI_ERROR_SESSION_DISCONNECTED} \<longrightarrow>
            state (InitializeDuplication e s) = Unknown)"
  using assms by (simp add: InitializeDuplication_def Let_def emit_def hresult_defs)

theorem InitializeDuplication_state_table_witness:
  "\<not> FAILED (outputAsHr (init_ok\<lparr>duplicateOutputHr := E_ACCESSDENIED\<rparr>)) \<and>
   state (InitializeDuplication (init_ok\<lparr>duplicateOutputHr := E_ACCESSDENIED\<rparr>) fresh) = AccessDenied \<and>
   state (InitializeDuplication (init_ok\<lparr>duplicateOutputHr := E_FAIL\<rparr>) fresh) = Unknown \<and>
   state (InitializeDuplication (init_ok\<lparr>duplicateOutputHr := S_FALSE\<rparr>) fresh) = Unknown \<and>
   state (InitializeDuplication init_ok (fresh\<lparr>state := Unknown\<rparr>)) = Ready"
  using InitializeDuplication_state_table [of "init_ok\<lparr>duplicateOutputHr := E_ACCESSDENIED\<rparr>" fresh]
    InitializeDuplication_state_table [of "init_ok\<lparr>duplicateOutputHr := E_FAIL\<rparr>" fresh]
    InitializeDuplication_state_table [of "init_ok\<lparr>duplicateOutputHr := S_FALSE\<rparr>" fresh]
    InitializeDuplication_state_table [of init_ok "fresh\<lparr>state := Unknown\<rparr>"]
  by (simp add: init_ok_def FAILED_def hresult_defs)

text \<open>
  Claim C3. When the identity of the capture adapter differs from the renderer's, the
  constructor leaves the state \<open>Unsupported\<close> (an error state), whatever the device and
  duplication-handle creation answered before the check, a successful creation that had
  set \<open>Ready\<close> included.
\<close>

theorem Constructor_adapter_mismatch:
  assumes "adapterLuid e \<noteq> unityAdapterLuid e"
  shows "state (Constructor m e s) = Unsupported \<and> IsError (Constructor m e s)"
proof -
  from assms have "\<not> isUnityAdapter e"
    by (auto simp add: isUnityAdapter_def LUID_neq_iff)
  then have "state (Constructor m e s) = Unsupported"
    by (simp add: Constructor_def CheckUnityAdapter_def emit_def)
  then show ?thesis
    by (simp add: IsError_def)
qed

theorem Constructor_adapter_mismatch_witness:
  "adapterLuid (init_ok\<lparr>unityAdapterLuid := \<lparr>LowPart = 7, HighPart = 1\<rparr>\<rparr>)
     \<noteq> unityAdapterLuid (init_ok\<lparr>unityAdapterLuid := \<lparr>LowPart = 7, HighPart = 1\<rparr>\<rparr>) \<and>
   state (InitializeDuplication (init_ok\<lparr>unityAdapterLuid := \<lparr>LowPart = 7, HighPart = 1\<rparr>\<rparr>)
            (InitializeDevice (init_ok\<lparr>unityAdapterLuid := \<lparr>LowPart = 7, HighPart = 1\<rparr>\<rparr>)
               (fresh\<lparr>monitorId := 0\<rparr>))) = Ready \<and>
   state (Constructor 0 (init_ok\<lparr>unityAdapterLuid := \<lparr>LowPart = 7, HighPart = 1\<rparr>\<rparr>) fresh) = Unsupported"
proof -
  let ?e = "init_ok\<lparr>unityAdapterLuid := \<lparr>LowPart = 7, HighPart = 1\<rparr>\<rparr>"
  have neq: "adapterLuid ?e \<noteq> unityAdapterLuid ?e"
    by (simp add: init_ok_def)
  have pre: "state (InitializeDuplication ?e (InitializeDevice ?e (fresh\<lparr>monitorId := 0\<rparr>))) = Ready"
    by (simp add: init_ok_def InitializeDuplication_def InitializeDevice_def emit_def Let_def
        FAILED_codes)
  from neq pre Constructor_adapter_mismatch [OF neq, of 0 fresh] show ?thesis
    by simp
qed

section \<open>Release\<close>

text \<open>
  The claim C4 as the spec states it, that every release failure other than access-lost
  sets the state to \<open>Unknown\<close>, fails on invalid-call: a running session that holds a
  frame and whose release fails with \<open>DXGI_ERROR_INVALID_CALL\<close> is still \<open>Running\<close>.
\<close>

theorem Release_invalid_call_counterexample:
  "isFrameAcquired held_session \<and>
   FAILED (releaseFrameHr (tick_ok\<lparr>releaseFrameHr := DXGI_ERROR_INVALID_CALL\<rparr>)) \<and>
   releaseFrameHr (tick_ok\<lparr>releaseFrameHr := DXGI_ERROR_INVALID_CALL\<rparr>) \<noteq> DXGI_ERROR_ACCESS_LOST \<and>
   state (Release (tick_ok\<lparr>releaseFrameHr := DXGI_ERROR_INVALID_CALL\<rparr>) held_session) = Running \<and>
   state (Release (tick_ok\<lparr>releaseFrameHr := DXGI_ERROR_INVALID_CALL\<rparr>) held_session) \<noteq> Unknown"
  by (simp add: held_session_eval Release_def emit_def Let_def tick_ok_def fresh_def FAILED_def
      hresult_defs)

text \<open>
  Claim C4, amended. When a frame is held and its release fails, access-lost sets the
  state to \<open>AccessLost\<close>, invalid-call is logged and leaves the state as it was, and
  every other failure code sets the state to \<open>Unknown\<close>.
\<close>

theorem Release_failure_mapping:
  assumes "isFrameAcquired s" and "FAILED (releaseFrameHr e)"
  shows "(releaseFrameHr e = DXGI_ERROR_ACCESS_LOST \<longrightarrow> state (Release e s) = AccessLost) \<and>
         (releaseFrameHr e = DXGI_ERROR_INVALID_CALL \<longrightarrow>
            state (Release e s) = state s \<and>
            trace (Release e s) = trace s @
              [CallReleaseFrame,
               DebugError ''Duplicator::Duplicate() => DXGI_ERROR_INVALID_CALL.'']) \<and>
         (releaseFrameHr e \<notin> {DXGI_ERROR_ACCESS_LOST, DXGI_ERROR_INVALID_CALL} \<longrightarrow>
            state (Release e s) = Unknown)"
  using assms by (simp add: Release_def emit_def Let_def FAILED_def hresult_defs)

theorem Release_failure_mapping_witness:
  "isFrameAcquired held_session \<and>
   FAILED (releaseFrameHr (tick_ok\<lparr>releaseFrameHr := E_FAIL\<rparr>)) \<and>
   state (Release (tick_ok\<lparr>releaseFrameHr := DXGI_ERROR_ACCESS_LOST\<rparr>) held_session) = AccessLost \<and>
   state (Release (tick_ok\<lparr>releaseFrameHr := DXGI_ERROR_INVALID_CALL\<rparr>) held_session) = state held_session \<and>
   state (Release (tick_ok\<lparr>releaseFrameHr := E_FAIL\<rparr>) held_session) = Unknown"
  using Release_failure_mapping [of held_session "tick_ok\<lparr>releaseFrameHr := DXGI_ERROR_ACCESS_LOST\<rparr>"]
    Release_failure_mapping [of held_session "tick_ok\<lparr>releaseFrameHr := DXGI_ERROR_INVALID_CALL\<rparr>"]
    Release_failure_mapping [of held_session "tick_ok\<lparr>releaseFrameHr := E_FAIL\<rparr>"]
  by (simp add: held_session_eval fresh_def tick_ok_def FAILED_def hresult_defs)

text \<open>
  Claim C9. \<^verbatim>\<open>Release()\<close> changes nothing and calls nothing when no frame is held. When
  a frame is held it calls \<^verbatim>\<open>ReleaseFrame\<close> and returns with the held-frame flag
  cleared, whatever code the call returned.
\<close>

theorem Release_held_flag:
  "(\<not> isFrameAcquired s \<longrightarrow> Release e s = s) \<and>
   (isFrameAcquired s \<longrightarrow>
      \<not> isFrameAcquired (Release e s) \<and>
      take (Suc (length (trace s))) (trace (Release e s)) = trace s @ [CallReleaseFrame])"
  by (simp add: Release_def emit_def Let_def)

theorem Release_held_flag_witness:
  "\<not> isFrameAcquired ready_session \<and> Release tick_ok ready_session = ready_session \<and>
   isFrameAcquired held_session \<and>
   \<not> isFrameAcquired (Release (tick_ok\<lparr>releaseFrameHr := E_FAIL\<rparr>) held_session) \<and>
   \<not> isFrameAcquired (Release tick_ok held_session)"
  using Release_held_flag [of ready_session tick_ok]
    Release_held_flag [of held_session "tick_ok\<lparr>releaseFrameHr := E_FAIL\<rparr>"]
    Release_held_flag [of held_session tick_ok]
  by (simp add: held_session_eval ready_session_eval fresh_def)

section \<open>What each step of the tick leaves alone\<close>

lemma emit_fields:
  "state (emit ev s) = state s" "dupl (emit ev s) = dupl s" "device (emit ev s) = device s"
  "isFrameAcquired (emit ev s) = isFrameAcquired s" "lastFrameId (emit ev s) = lastFrameId s"
  "lastFrame (emit ev s) = lastFrame s" "metaData (emit ev s) = metaData s"
  "monitorId (emit ev s) = monitorId s" "cursorMonitorId (emit ev s) = cursorMonitorId s"
  "thread (emit ev s) = thread s" "shouldRun (emit ev s) = shouldRun s"
  "liveThreads (emit ev s) = liveThreads s" "trace (emit ev s) = trace s @ [ev]"
  by (simp_all add: emit_def)

lemma Release_fields:
  "dupl (Release e s) = dupl s" "device (Release e s) = device s"
  "lastFrameId (Release e s) = lastFrameId s" "lastFrame (Release e s) = lastFrame s"
  "metaData (Release e s) = metaData s" "monitorId (Release e s) = monitorId s"
  "cursorMonitorId (Release e s) = cursorMonitorId s" "thread (Release e s) = thread s"
  "shouldRun (Release e s) = shouldRun s" "liveThreads (Release e s) = liveThreads s"
  "isFrameAcquired (Release e s) = False"
  by (simp_all add: Release_def Let_def emit_fields)

lemma Release_state:
  "state (Release e s) =
     (if isFrameAcquired s \<and> FAILED (releaseFrameHr e) then
        (if releaseFrameHr e = DXGI_ERROR_ACCESS_LOST then AccessLost
         else if releaseFrameHr e = DXGI_ERROR_INVALID_CALL then state s
         else Unknown)
      else state s)"
  by (simp add: Release_def Let_def emit_fields)

lemma UpdateCursor_fields:
  "state (UpdateCursor tex info s) = state s" "dupl (UpdateCursor tex info s) = dupl s"
  "device (UpdateCursor tex info s) = device s"
  "isFrameAcquired (UpdateCursor tex info s) = isFrameAcquired s"
  "lastFrameId (UpdateCursor tex info s) = lastFrameId s"
  "lastFrame (UpdateCursor tex info s) = lastFrame s"
  "metaData (UpdateCursor tex info s) = metaData s"
  "thread (UpdateCursor tex info s) = thread s"
  "shouldRun (UpdateCursor tex info s) = shouldRun s"
  "liveThreads (UpdateCursor tex info s) = liveThreads s"
  by (simp_all add: UpdateCursor_def Let_def emit_fields)

lemma UpdateMoveRects_fields:
  "state (UpdateMoveRects e s) = state s" "dupl (UpdateMoveRects e s) = dupl s"
  "device (UpdateMoveRects e s) = device s"
  "isFrameAcquired (UpdateMoveRects e s) = isFrameAcquired s"
  "lastFrameId (UpdateMoveRects e s) = lastFrameId s"
  "lastFrame (UpdateMoveRects e s) = lastFrame s"
  "thread (UpdateMoveRects e s) = thread s"
  "shouldRun (UpdateMoveRects e s) = shouldRun s"
  "liveThreads (UpdateMoveRects e s) = liveThreads s"
  "metaData (UpdateMoveRects e s) =
     (metaData s)\<lparr>moveRectSize :=
        (case moveRectsSizeRequired e of None \<Rightarrow> moveRectSize (metaData s) | Some n \<Rightarrow> n)\<rparr>"
  by (simp_all add: UpdateMoveRects_def Let_def emit_fields)

lemma UpdateMoveRects_requests:
  "filter isRectRequest (trace (UpdateMoveRects e s)) =
     filter isRectRequest (trace s) @ [CallGetFrameMoveRects (Size (buffer (metaData s))) 0]"
  by (simp add: UpdateMoveRects_def Let_def emit_fields)

lemma UpdateDirtyRects_fields:
  "state (UpdateDirtyRects e s) = state s" "dupl (UpdateDirtyRects e s) = dupl s"
  "device (UpdateDirtyRects e s) = device s"
  "isFrameAcquired (UpdateDirtyRects e s) = isFrameAcquired s"
  "lastFrameId (UpdateDirtyRects e s) = lastFrameId s"
  "lastFrame (UpdateDirtyRects e s) = lastFrame s"
  "thread (UpdateDirtyRects e s) = thread s"
  "shouldRun (UpdateDirtyRects e s) = shouldRun s"
  "liveThreads (UpdateDirtyRects e s) = liveThreads s"
  "metaData (UpdateDirtyRects e s) =
     (metaData s)\<lparr>dirtyRectSize :=
        (case dirtyRectsSizeRequired e of None \<Rightarrow> dirtyRectSize (metaData s) | Some n \<Rightarrow> n)\<rparr>"
  by (simp_all add: UpdateDirtyRects_def Let_def emit_fields)

lemma UpdateDirtyRects_requests:
  "filter isRectRequest (trace (UpdateDirtyRects e s)) =
     filter isRectRequest (trace s) @
       [CallGetFrameDirtyRects (Size (buffer (metaData s)) - moveRectSize (metaData s))
          (moveRectSize (metaData s))]"
  by (simp add: UpdateDirtyRects_def Let_def emit_fields)

lemma UpdateMetadata_fields:
  "state (UpdateMetadata e n s) = state s" "dupl (UpdateMetadata e n s) = dupl s"
  "device (UpdateMetadata e n s) = device s"
  "isFrameAcquired (UpdateMetadata e n s) = isFrameAcquired s"
  "lastFrameId (UpdateMetadata e n s) = lastFrameId s"
  "lastFrame (UpdateMetadata e n s) = lastFrame s"
  "thread (UpdateMetadata e n s) = thread s"
  "shouldRun (UpdateMetadata e n s) = shouldRun s"
  "liveThreads (UpdateMetadata e n s) = liveThreads s"
  "buffer (metaData (UpdateMetadata e n s)) = ExpandIfNeeded n (buffer (metaData s))"
  by (simp_all add: UpdateMetadata_def Let_def UpdateMoveRects_fields UpdateDirtyRects_fields)

lemma ExpandIfNeeded_Size:
  "Size (ExpandIfNeeded n b) = max n (Size b)"
  by (auto simp add: ExpandIfNeeded_def Size_def max_def)

lemma Duplicate_with_handles:
  assumes "dupl s \<noteq> None" and "device s \<noteq> None"
  shows "Duplicate t e s =
     (if FAILED (acquireNextFrameHr e) then
        (if acquireNextFrameHr e = DXGI_ERROR_ACCESS_LOST then
           (emit (DebugLog ''Duplicator::Duplicate() => DXGI_ERROR_ACCESS_LOST.'')
              (emit (CallAcquireNextFrame t) (Release e s)))\<lparr>state := AccessLost\<rparr>
         else if acquireNextFrameHr e = DXGI_ERROR_WAIT_TIMEOUT then
           emit (CallAcquireNextFrame t) (Release e s)
         else if acquireNextFrameHr e = DXGI_ERROR_INVALID_CALL then
           emit (DebugError ''Duplicator::Duplicate() => DXGI_ERROR_INVALID_CALL.'')
             (emit (CallAcquireNextFrame t) (Release e s))
         else if acquireNextFrameHr e = E_INVALIDARG then
           emit (DebugError ''Duplicator::Duplicate() => E_INVALIDARG.'')
             (emit (CallAcquireNextFrame t) (Release e s))
         else
           emit (DebugError ''Duplicator::Duplicate() => Unknown Error.'')
             ((emit (CallAcquireNextFrame t) (Release e s))\<lparr>state := Unknown\<rparr>))
      else if FAILED (resourceAsHr e) then
        emit (DebugError ''Duplicator::Duplicate() => IDXGIResource could not be converted to ID3D11Texture2D.'')
          ((emit (CallAcquireNextFrame t) (Release e s))\<lparr>isFrameAcquired := True\<rparr>)
      else
        (case compatibleSharedTexture e of
           None \<Rightarrow>
             emit (DebugError ''Duplicator::Duplicate() => Shared texture is null.'')
               ((emit (CallAcquireNextFrame t) (Release e s))\<lparr>isFrameAcquired := True\<rparr>)
         | Some tex \<Rightarrow>
             (UpdateMetadata e (TotalMetadataBufferSize (acquiredFrameInfo e))
                (UpdateCursor tex (acquiredFrameInfo e)
                   (emit (CallCopyResource tex)
                      ((emit (CallAcquireNextFrame t) (Release e s))\<lparr>isFrameAcquired := True\<rparr>))))
             \<lparr>lastFrame :=
                \<lparr>sequenceId = lastFrameId s, texture = Some tex,
                 frameInfo = acquiredFrameInfo e,
                 metadata = metaData
                   (UpdateMetadata e (TotalMetadataBufferSize (acquiredFrameInfo e))
                      (UpdateCursor tex (acquiredFrameInfo e)
                         (emit (CallCopyResource tex)
                            ((emit (CallAcquireNextFrame t) (Release e s))
                               \<lparr>isFrameAcquired := True\<rparr>))))\<rparr>,
              lastFrameId := lastFrameId s + 1\<rparr>))"
proof -
  from assms have guard: "(dupl s = None \<or> device s = None) = False"
    by simp
  show ?thesis
    unfolding Duplicate_def guard Let_def if_False
    by (simp add: UpdateMetadata_fields UpdateCursor_fields emit_fields Release_fields
        cong: if_cong option.case_cong)
qed

lemma held_session_fields:
  "dupl held_session \<noteq> None" "device held_session \<noteq> None"
  "state held_session = Running" "isFrameAcquired held_session"
  "lastFrameId held_session = 1" "sequenceId (lastFrame held_session) = 0"
  by (simp_all add: held_session_eval fresh_def)

lemma ready_session_fields:
  "dupl ready_session \<noteq> None" "device ready_session \<noteq> None"
  "state ready_session = Ready" "\<not> isFrameAcquired ready_session"
  "lastFrameId ready_session = 0" "thread ready_session = NotJoinable"
  "liveThreads ready_session = 0" "trace ready_session = [DebugLog ''Duplicator::Initialize() => OK.'']"
  "buffer (metaData ready_session) = \<lparr>capacity = 0\<rparr>"
  by (simp_all add: ready_session_eval fresh_def)

lemma Release_trace_held:
  "isFrameAcquired s \<Longrightarrow> \<exists>r. trace (Release e s) = trace s @ CallReleaseFrame # r"
  by (simp add: Release_def Let_def emit_fields)

lemma UpdateCursor_trace: "\<exists>r. trace (UpdateCursor tex info s) = trace s @ r"
  by (simp add: UpdateCursor_def Let_def emit_fields)

lemma UpdateMoveRects_trace: "\<exists>r. trace (UpdateMoveRects e s) = trace s @ r"
  by (simp add: UpdateMoveRects_def Let_def emit_fields)

lemma UpdateDirtyRects_trace: "\<exists>r. trace (UpdateDirtyRects e s) = trace s @ r"
  by (simp add: UpdateDirtyRects_def Let_def emit_fields)

lemma UpdateMetadata_trace: "\<exists>r. trace (UpdateMetadata e n s) = trace s @ r"
proof -
  let ?s1 = "s\<lparr>metaData := (metaData s)\<lparr>buffer := ExpandIfNeeded n (buffer (metaData s))\<rparr>\<rparr>"
  obtain r1 where r1: "trace (UpdateMoveRects e ?s1) = trace ?s1 @ r1"
    using UpdateMoveRects_trace by blast
  obtain r2 where r2: "trace (UpdateDirtyRects e (UpdateMoveRects e ?s1)) =
      trace (UpdateMoveRects e ?s1) @ r2"
    using UpdateDirtyRects_trace by blast
  show ?thesis
    by (simp add: UpdateMetadata_def Let_def r1 r2)
qed

lemma Duplicate_trace_Release:
  assumes "dupl s \<noteq> None" and "device s \<noteq> None"
  shows "\<exists>r. trace (Duplicate t e s) = trace (Release e s) @ CallAcquireNextFrame t # r"
proof -
  note D = Duplicate_with_handles [OF assms, of t e]
  let ?s3 = "(emit (CallAcquireNextFrame t) (Release e s))\<lparr>isFrameAcquired := True\<rparr>"
  show ?thesis
  proof (cases "FAILED (acquireNextFrameHr e) \<or> FAILED (resourceAsHr e) \<or>
      compatibleSharedTexture e = None")
    case True
    then show ?thesis
      by (auto simp add: D emit_fields)
  next
    case False
    then obtain tex where tex: "compatibleSharedTexture e = Some tex"
      by auto
    obtain r1 where r1: "trace (UpdateCursor tex (acquiredFrameInfo e) (emit (CallCopyResource tex) ?s3)) =
        trace (emit (CallCopyResource tex) ?s3) @ r1"
      using UpdateCursor_trace by blast
    obtain r2 where r2: "trace (UpdateMetadata e (TotalMetadataBufferSize (acquiredFrameInfo e))
        (UpdateCursor tex (acquiredFrameInfo e) (emit (CallCopyResource tex) ?s3))) =
        trace (UpdateCursor tex (acquiredFrameInfo e) (emit (CallCopyResource tex) ?s3)) @ r2"
      using UpdateMetadata_trace by blast
    from False tex show ?thesis
      by (simp add: D r1 r2 emit_fields)
  qed
qed

lemma Duplicate_handles_kept:
  "dupl (Duplicate t e s) = dupl s \<and> device (Duplicate t e s) = device s"
proof (cases "dupl s = None \<or> device s = None")
  case True
  then show ?thesis
    by (simp add: Duplicate_def)
next
  case False
  then have h: "dupl s \<noteq> None" "device s \<noteq> None"
    by simp_all
  show ?thesis
    by (simp add: Duplicate_with_handles [OF h] emit_fields Release_fields UpdateMetadata_fields
        UpdateCursor_fields split: option.split)
qed

lemma Duplicate_next_releases:
  assumes "dupl s \<noteq> None" and "device s \<noteq> None" and "isFrameAcquired s"
  shows "take (Suc (length (trace s))) (trace (Duplicate t e s)) = trace s @ [CallReleaseFrame]"
proof -
  obtain r1 where r1: "trace (Release e s) = trace s @ CallReleaseFrame # r1"
    using Release_trace_held [OF assms(3)] by blast
  obtain r2 where r2: "trace (Duplicate t e s) = trace (Release e s) @ CallAcquireNextFrame t # r2"
    using Duplicate_trace_Release [OF assms(1,2)] by blast
  show ?thesis
    by (simp add: r1 r2)
qed

lemma Stop_isFrameAcquired: "isFrameAcquired (Stop s) = isFrameAcquired s"
  by (simp add: Stop_def Let_def emit_fields)

lemma Start_isFrameAcquired: "isFrameAcquired (Start s) = isFrameAcquired s"
  by (simp add: Start_def Let_def emit_fields Stop_isFrameAcquired)

section \<open>Metadata extraction\<close>

text \<open>
  Claim C8. \<^verbatim>\<open>UpdateMetadata\<close> first grows the buffer, which afterwards holds at least
  \<open>totalBufferSize\<close> bytes and no fewer than before. When the buffer is then empty no
  rectangle request is made. Otherwise exactly two requests follow, in this order: the
  move rectangles with the whole capacity at offset 0, whose byte count becomes
  \<open>moveRectSize\<close>, then the dirty rectangles with capacity minus \<open>moveRectSize\<close>
  (\<^verbatim>\<open>UINT\<close> subtraction) at offset \<open>moveRectSize\<close>, whose byte count becomes
  \<open>dirtyRectSize\<close>. Whatever codes the two requests return, the session state is the
  one before.
\<close>

theorem UpdateMetadata_requests:
  "totalBufferSize \<le> Size (buffer (metaData (UpdateMetadata e totalBufferSize s))) \<and>
   Size (buffer (metaData s)) \<le> Size (buffer (metaData (UpdateMetadata e totalBufferSize s))) \<and>
   state (UpdateMetadata e totalBufferSize s) = state s \<and>
   (Empty (buffer (metaData (UpdateMetadata e totalBufferSize s))) \<longrightarrow>
      filter isRectRequest (trace (UpdateMetadata e totalBufferSize s)) =
        filter isRectRequest (trace s)) \<and>
   (\<not> Empty (buffer (metaData (UpdateMetadata e totalBufferSize s))) \<longrightarrow>
      moveRectSize (metaData (UpdateMetadata e totalBufferSize s)) =
        (case moveRectsSizeRequired e of None \<Rightarrow> moveRectSize (metaData s) | Some n \<Rightarrow> n) \<and>
      dirtyRectSize (metaData (UpdateMetadata e totalBufferSize s)) =
        (case dirtyRectsSizeRequired e of None \<Rightarrow> dirtyRectSize (metaData s) | Some n \<Rightarrow> n) \<and>
      filter isRectRequest (trace (UpdateMetadata e totalBufferSize s)) =
        filter isRectRequest (trace s) @
          [CallGetFrameMoveRects (Size (buffer (metaData (UpdateMetadata e totalBufferSize s)))) 0,
           CallGetFrameDirtyRects
             (Size (buffer (metaData (UpdateMetadata e totalBufferSize s))) -
                moveRectSize (metaData (UpdateMetadata e totalBufferSize s)))
             (moveRectSize (metaData (UpdateMetadata e totalBufferSize s)))])"
proof -
  let ?s1 = "s\<lparr>metaData := (metaData s)\<lparr>buffer := ExpandIfNeeded totalBufferSize (buffer (metaData s))\<rparr>\<rparr>"
  have size: "Size (buffer (metaData (UpdateMetadata e totalBufferSize s))) =
      max totalBufferSize (Size (buffer (metaData s)))"
    by (simp add: UpdateMetadata_fields ExpandIfNeeded_Size)
  have empty: "Empty (buffer (metaData ?s1)) \<Longrightarrow> UpdateMetadata e totalBufferSize s = ?s1"
    by (simp add: UpdateMetadata_def Let_def)
  have nonempty: "\<not> Empty (buffer (metaData ?s1)) \<Longrightarrow>
      UpdateMetadata e totalBufferSize s = UpdateDirtyRects e (UpdateMoveRects e ?s1)"
    by (simp add: UpdateMetadata_def Let_def)
  have buf: "buffer (metaData (UpdateMetadata e totalBufferSize s)) = buffer (metaData ?s1)"
    by (simp add: UpdateMetadata_fields)
  show ?thesis
  proof (cases "Empty (buffer (metaData ?s1))")
    case True
    with empty [OF True] size show ?thesis
      by (simp add: UpdateMetadata_fields)
  next
    case False
    note eq = nonempty [OF False]
    have "\<not> Empty (buffer (metaData (UpdateMetadata e totalBufferSize s)))"
      using False buf by simp
    moreover have "moveRectSize (metaData (UpdateMetadata e totalBufferSize s)) =
        (case moveRectsSizeRequired e of None \<Rightarrow> moveRectSize (metaData s) | Some n \<Rightarrow> n)"
      by (simp add: eq UpdateMoveRects_fields UpdateDirtyRects_fields split: option.split)
    moreover have "dirtyRectSize (metaData (UpdateMetadata e totalBufferSize s)) =
        (case dirtyRectsSizeRequired e of None \<Rightarrow> dirtyRectSize (metaData s) | Some n \<Rightarrow> n)"
      by (simp add: eq UpdateMoveRects_fields UpdateDirtyRects_fields split: option.split)
    moreover have "filter isRectRequest (trace (UpdateMetadata e totalBufferSize s)) =
        filter isRectRequest (trace s) @
          [CallGetFrameMoveRects (Size (buffer (metaData (UpdateMetadata e totalBufferSize s)))) 0,
           CallGetFrameDirtyRects
             (Size (buffer (metaData (UpdateMetadata e totalBufferSize s))) -
                moveRectSize (metaData (UpdateMetadata e totalBufferSize s)))
             (moveRectSize (metaData (UpdateMetadata e totalBufferSize s)))]"
      by (simp add: eq UpdateMoveRects_fields UpdateDirtyRects_fields UpdateMoveRects_requests
          UpdateDirtyRects_requests Size_def split: option.split)
    ultimately show ?thesis
      using size by (simp add: UpdateMetadata_fields)
  qed
qed

theorem UpdateMetadata_requests_witness:
  "\<not> Empty (buffer (metaData (UpdateMetadata tick_ok 4096 ready_session))) \<and>
   Size (buffer (metaData (UpdateMetadata tick_ok 4096 ready_session))) = 4096 \<and>
   filter isRectRequest (trace (UpdateMetadata tick_ok 4096 ready_session)) =
     [CallGetFrameMoveRects 4096 0, CallGetFrameDirtyRects 4072 24] \<and>
   Empty (buffer (metaData (UpdateMetadata tick_ok 0 ready_session))) \<and>
   filter isRectRequest (trace (UpdateMetadata tick_ok 0 ready_session)) = []"
  using UpdateMetadata_requests [of 4096 tick_ok ready_session]
    UpdateMetadata_requests [of 0 tick_ok ready_session]
  by (simp add: UpdateMetadata_fields ready_session_fields ExpandIfNeeded_def Empty_def Size_def
      tick_ok_def)

section \<open>The tick: failed acquisition\<close>

text \<open>
  The claim C2 as the spec states it ends with: after a tick that fails with wait-timeout
  the state equals the state before the tick. The tick starts by releasing the frame held
  from the tick before, and a failed release changes the state: a running session whose
  release fails with \<open>E_FAIL\<close> and whose acquisition then times out ends in \<open>Unknown\<close>.
\<close>

theorem Duplicate_wait_timeout_counterexample:
  "dupl held_session \<noteq> None \<and> device held_session \<noteq> None \<and>
   acquireNextFrameHr (tick_ok\<lparr>releaseFrameHr := E_FAIL,
      acquireNextFrameHr := DXGI_ERROR_WAIT_TIMEOUT\<rparr>) = DXGI_ERROR_WAIT_TIMEOUT \<and>
   FAILED DXGI_ERROR_WAIT_TIMEOUT \<and>
   state held_session = Running \<and>
   state (Duplicate 16 (tick_ok\<lparr>releaseFrameHr := E_FAIL,
      acquireNextFrameHr := DXGI_ERROR_WAIT_TIMEOUT\<rparr>) held_session) = Unknown \<and>
   state (Duplicate 16 (tick_ok\<lparr>releaseFrameHr := E_FAIL,
      acquireNextFrameHr := DXGI_ERROR_WAIT_TIMEOUT\<rparr>) held_session) \<noteq> state held_session"
proof -
  let ?e = "tick_ok\<lparr>releaseFrameHr := E_FAIL, acquireNextFrameHr := DXGI_ERROR_WAIT_TIMEOUT\<rparr>"
  have h: "dupl held_session \<noteq> None" "device held_session \<noteq> None"
    "state held_session = Running" "isFrameAcquired held_session"
    by (simp_all add: held_session_eval fresh_def)
  have c: "FAILED DXGI_ERROR_WAIT_TIMEOUT" "FAILED E_FAIL"
    "E_FAIL \<noteq> DXGI_ERROR_ACCESS_LOST" "E_FAIL \<noteq> DXGI_ERROR_INVALID_CALL"
    "DXGI_ERROR_WAIT_TIMEOUT \<noteq> DXGI_ERROR_ACCESS_LOST"
    by (simp_all add: FAILED_def hresult_defs)
  have "state (Duplicate 16 ?e held_session) = Unknown"
    by (simp add: Duplicate_with_handles [OF h(1,2)] emit_fields Release_state h c)
  with h c show ?thesis
    by simp
qed

text \<open>
  Claim C2, amended. In a tick whose acquisition fails, relative to the state that the
  release at the start of the tick has left: access-lost sets the state to \<open>AccessLost\<close>;
  wait-timeout leaves it unchanged, logs nothing and keeps a running session running;
  invalid-call and invalid-args are logged and leave it unchanged; every other failure
  code sets it to \<open>Unknown\<close>. When no frame was held at the start of the tick, or the
  held frame's release succeeded, a tick that fails with wait-timeout, invalid-call or
  invalid-args ends in the state it began in.
\<close>

theorem Duplicate_acquire_failure_mapping:
  assumes "dupl s \<noteq> None" and "device s \<noteq> None" and "FAILED (acquireNextFrameHr e)"
  shows "(acquireNextFrameHr e = DXGI_ERROR_ACCESS_LOST \<longrightarrow>
            state (Duplicate t e s) = AccessLost) \<and>
         (acquireNextFrameHr e = DXGI_ERROR_WAIT_TIMEOUT \<longrightarrow>
            state (Duplicate t e s) = state (Release e s) \<and>
            trace (Duplicate t e s) = trace (Release e s) @ [CallAcquireNextFrame t] \<and>
            IsRunning (Duplicate t e s) = IsRunning (Release e s)) \<and>
         (acquireNextFrameHr e = DXGI_ERROR_INVALID_CALL \<longrightarrow>
            state (Duplicate t e s) = state (Release e s) \<and>
            trace (Duplicate t e s) = trace (Release e s) @
              [CallAcquireNextFrame t,
               DebugError ''Duplicator::Duplicate() => DXGI_ERROR_INVALID_CALL.'']) \<and>
         (acquireNextFrameHr e = E_INVALIDARG \<longrightarrow>
            state (Duplicate t e s) = state (Release e s) \<and>
            trace (Duplicate t e s) = trace (Release e s) @
              [CallAcquireNextFrame t, DebugError ''Duplicator::Duplicate() => E_INVALIDARG.'']) \<and>
         (acquireNextFrameHr e \<notin> {DXGI_ERROR_ACCESS_LOST, DXGI_ERROR_WAIT_TIMEOUT,
              DXGI_ERROR_INVALID_CALL, E_INVALIDARG} \<longrightarrow>
            state (Duplicate t e s) = Unknown) \<and>
         (acquireNextFrameHr e \<in> {DXGI_ERROR_WAIT_TIMEOUT, DXGI_ERROR_INVALID_CALL, E_INVALIDARG} \<and>
          (isFrameAcquired s \<longrightarrow> \<not> FAILED (releaseFrameHr e)) \<longrightarrow>
            state (Duplicate t e s) = state s)"
proof -
  note D = Duplicate_with_handles [OF assms(1,2), of t e]
  have ne: "DXGI_ERROR_WAIT_TIMEOUT \<noteq> DXGI_ERROR_ACCESS_LOST"
    "DXGI_ERROR_INVALID_CALL \<noteq> DXGI_ERROR_ACCESS_LOST"
    "DXGI_ERROR_INVALID_CALL \<noteq> DXGI_ERROR_WAIT_TIMEOUT"
    "E_INVALIDARG \<noteq> DXGI_ERROR_ACCESS_LOST"
    "E_INVALIDARG \<noteq> DXGI_ERROR_WAIT_TIMEOUT"
    "E_INVALIDARG \<noteq> DXGI_ERROR_INVALID_CALL"
    by (simp_all add: hresult_defs)
  have lost: "acquireNextFrameHr e = DXGI_ERROR_ACCESS_LOST \<Longrightarrow> state (Duplicate t e s) = AccessLost"
    using assms(3) by (simp add: D emit_fields)
  have timeout: "acquireNextFrameHr e = DXGI_ERROR_WAIT_TIMEOUT \<Longrightarrow>
      Duplicate t e s = emit (CallAcquireNextFrame t) (Release e s)"
    using assms(3) by (simp add: D ne)
  have invalid_call: "acquireNextFrameHr e = DXGI_ERROR_INVALID_CALL \<Longrightarrow>
      Duplicate t e s = emit (DebugError ''Duplicator::Duplicate() => DXGI_ERROR_INVALID_CALL.'')
        (emit (CallAcquireNextFrame t) (Release e s))"
    using assms(3) by (simp add: D ne)
  have invalid_arg: "acquireNextFrameHr e = E_INVALIDARG \<Longrightarrow>
      Duplicate t e s = emit (DebugError ''Duplicator::Duplicate() => E_INVALIDARG.'')
        (emit (CallAcquireNextFrame t) (Release e s))"
    using assms(3) by (simp add: D ne)
  have other: "acquireNextFrameHr e \<notin> {DXGI_ERROR_ACCESS_LOST, DXGI_ERROR_WAIT_TIMEOUT,
      DXGI_ERROR_INVALID_CALL, E_INVALIDARG} \<Longrightarrow> state (Duplicate t e s) = Unknown"
    using assms(3) by (simp add: D emit_fields)
  have rel: "(isFrameAcquired s \<longrightarrow> \<not> FAILED (releaseFrameHr e)) \<Longrightarrow>
      state (Release e s) = state s"
    by (auto simp add: Release_state)
  have c2: "acquireNextFrameHr e = DXGI_ERROR_WAIT_TIMEOUT \<longrightarrow>
      state (Duplicate t e s) = state (Release e s) \<and>
      trace (Duplicate t e s) = trace (Release e s) @ [CallAcquireNextFrame t] \<and>
      IsRunning (Duplicate t e s) = IsRunning (Release e s)"
    by (simp add: timeout emit_fields IsRunning_def)
  have c3: "acquireNextFrameHr e = DXGI_ERROR_INVALID_CALL \<longrightarrow>
      state (Duplicate t e s) = state (Release e s) \<and>
      trace (Duplicate t e s) = trace (Release e s) @
        [CallAcquireNextFrame t,
         DebugError ''Duplicator::Duplicate() => DXGI_ERROR_INVALID_CALL.'']"
    by (simp add: invalid_call emit_fields)
  have c4: "acquireNextFrameHr e = E_INVALIDARG \<longrightarrow>
      state (Duplicate t e s) = state (Release e s) \<and>
      trace (Duplicate t e s) = trace (Release e s) @
        [CallAcquireNextFrame t, DebugError ''Duplicator::Duplicate() => E_INVALIDARG.'']"
    by (simp add: invalid_arg emit_fields)
  have c6: "acquireNextFrameHr e \<in> {DXGI_ERROR_WAIT_TIMEOUT, DXGI_ERROR_INVALID_CALL, E_INVALIDARG} \<and>
      (isFrameAcquired s \<longrightarrow> \<not> FAILED (releaseFrameHr e)) \<longrightarrow>
      state (Duplicate t e s) = state s"
  proof (intro impI, elim conjE)
    assume mem: "acquireNextFrameHr e \<in>
        {DXGI_ERROR_WAIT_TIMEOUT, DXGI_ERROR_INVALID_CALL, E_INVALIDARG}"
      and r: "isFrameAcquired s \<longrightarrow> \<not> FAILED (releaseFrameHr e)"
    from mem c2 c3 c4 have "state (Duplicate t e s) = state (Release e s)"
      by auto
    with rel [OF r] show "state (Duplicate t e s) = state s"
      by simp
  qed
  have c1: "acquireNextFrameHr e = DXGI_ERROR_ACCESS_LOST \<longrightarrow>
      state (Duplicate t e s) = AccessLost"
    using lost by simp
  have c5: "acquireNextFrameHr e \<notin> {DXGI_ERROR_ACCESS_LOST, DXGI_ERROR_WAIT_TIMEOUT,
      DXGI_ERROR_INVALID_CALL, E_INVALIDARG} \<longrightarrow> state (Duplicate t e s) = Unknown"
    using other by simp
  show ?thesis
    by (intro conjI c1 c2 c3 c4 c5 c6)
qed

theorem Duplicate_acquire_failure_mapping_witness:
  "dupl held_session \<noteq> None \<and> device held_session \<noteq> None \<and>
   FAILED (acquireNextFrameHr (tick_ok\<lparr>acquireNextFrameHr := DXGI_ERROR_WAIT_TIMEOUT\<rparr>)) \<and>
   state (Duplicate 16 (tick_ok\<lparr>acquireNextFrameHr := DXGI_ERROR_WAIT_TIMEOUT\<rparr>) held_session)
     = state held_session \<and>
   state (Duplicate 16 (tick_ok\<lparr>acquireNextFrameHr := DXGI_ERROR_ACCESS_LOST\<rparr>) held_session)
     = AccessLost \<and>
   state (Duplicate 16 (tick_ok\<lparr>acquireNextFrameHr := E_FAIL\<rparr>) held_session) = Unknown"
  using Duplicate_acquire_failure_mapping
      [of held_session "tick_ok\<lparr>acquireNextFrameHr := DXGI_ERROR_WAIT_TIMEOUT\<rparr>" 16]
    Duplicate_acquire_failure_mapping
      [of held_session "tick_ok\<lparr>acquireNextFrameHr := DXGI_ERROR_ACCESS_LOST\<rparr>" 16]
    Duplicate_acquire_failure_mapping
      [of held_session "tick_ok\<lparr>acquireNextFrameHr := E_FAIL\<rparr>" 16]
  by (simp add: held_session_fields Release_state tick_ok_def FAILED_def hresult_defs)

section \<open>The tick: acquisition without publication\<close>

text \<open>
  The claim C10 as stated has the early return leave the session state unchanged. The
  release at the start of the same tick can change it: a running session whose release
  fails with \<open>E_FAIL\<close>, whose acquisition succeeds and whose conversion fails ends in
  \<open>Unknown\<close>.
\<close>

theorem Duplicate_early_return_counterexample:
  "dupl held_session \<noteq> None \<and> device held_session \<noteq> None \<and>
   \<not> FAILED (acquireNextFrameHr (tick_ok\<lparr>releaseFrameHr := E_FAIL, resourceAsHr := E_FAIL\<rparr>)) \<and>
   FAILED (resourceAsHr (tick_ok\<lparr>releaseFrameHr := E_FAIL, resourceAsHr := E_FAIL\<rparr>)) \<and>
   state held_session = Running \<and>
   state (Duplicate 16 (tick_ok\<lparr>releaseFrameHr := E_FAIL, resourceAsHr := E_FAIL\<rparr>) held_session)
     = Unknown \<and>
   state (Duplicate 16 (tick_ok\<lparr>releaseFrameHr := E_FAIL, resourceAsHr := E_FAIL\<rparr>) held_session)
     \<noteq> state held_session"
proof -
  let ?e = "tick_ok\<lparr>releaseFrameHr := E_FAIL, resourceAsHr := E_FAIL\<rparr>"
  have c: "\<not> FAILED (acquireNextFrameHr ?e)" "FAILED (resourceAsHr ?e)"
    "FAILED (releaseFrameHr ?e)" "releaseFrameHr ?e \<noteq> DXGI_ERROR_ACCESS_LOST"
    "releaseFrameHr ?e \<noteq> DXGI_ERROR_INVALID_CALL"
    by (simp_all add: tick_ok_def FAILED_def hresult_defs)
  have "state (Duplicate 16 ?e held_session) = Unknown"
    using c by (simp add: Duplicate_with_handles [OF held_session_fields(1,2)] emit_fields
        Release_state held_session_fields)
  with c show ?thesis
    by (simp add: held_session_fields)
qed

text \<open>
  Claim C10, amended. When the acquisition succeeds and the conversion to a texture fails
  or no shared texture comes back, \<^verbatim>\<open>Duplicate\<close> returns with the state that the release
  at the start of the tick has left (the state before the tick when no frame was held or
  its release succeeded), with the published snapshot and the counter unchanged, and with
  the acquired frame marked as held. \<^verbatim>\<open>Start()\<close> and \<^verbatim>\<open>Stop()\<close> leave it held; the
  next call of \<^verbatim>\<open>Duplicate\<close> begins by calling \<^verbatim>\<open>ReleaseFrame\<close>, and its release
  step clears the mark.
\<close>

theorem Duplicate_early_return:
  assumes "dupl s \<noteq> None" and "device s \<noteq> None" and "\<not> FAILED (acquireNextFrameHr e)"
    and "FAILED (resourceAsHr e) \<or> compatibleSharedTexture e = None"
  shows "state (Duplicate t e s) = state (Release e s) \<and>
         ((isFrameAcquired s \<longrightarrow> \<not> FAILED (releaseFrameHr e)) \<longrightarrow>
            state (Duplicate t e s) = state s) \<and>
         GetLastFrame (Duplicate t e s) = GetLastFrame s \<and>
         lastFrameId (Duplicate t e s) = lastFrameId s \<and>
         isFrameAcquired (Duplicate t e s) \<and>
         isFrameAcquired (Stop (Duplicate t e s)) \<and>
         isFrameAcquired (Start (Duplicate t e s)) \<and>
         take (Suc (length (trace (Duplicate t e s)))) (trace (Duplicate t' e' (Duplicate t e s))) =
           trace (Duplicate t e s) @ [CallReleaseFrame] \<and>
         \<not> isFrameAcquired (Release e' (Duplicate t e s))"
proof -
  note D = Duplicate_with_handles [OF assms(1,2), of t e]
  have st: "state (Duplicate t e s) = state (Release e s)"
    using assms(3,4) by (auto simp add: D emit_fields)
  have rel: "(isFrameAcquired s \<longrightarrow> \<not> FAILED (releaseFrameHr e)) \<longrightarrow>
      state (Duplicate t e s) = state s"
    by (auto simp add: st Release_state)
  have frame: "GetLastFrame (Duplicate t e s) = GetLastFrame s"
    using assms(3,4) by (auto simp add: D GetLastFrame_def emit_fields Release_fields)
  have counter: "lastFrameId (Duplicate t e s) = lastFrameId s"
    using assms(3,4) by (auto simp add: D emit_fields Release_fields)
  have held: "isFrameAcquired (Duplicate t e s)"
    using assms(3,4) by (auto simp add: D emit_fields)
  have handles: "dupl (Duplicate t e s) \<noteq> None" "device (Duplicate t e s) \<noteq> None"
    using assms(1,2) by (simp_all add: Duplicate_handles_kept)
  have nxt: "take (Suc (length (trace (Duplicate t e s)))) (trace (Duplicate t' e' (Duplicate t e s))) =
      trace (Duplicate t e s) @ [CallReleaseFrame]"
    by (rule Duplicate_next_releases [OF handles held])
  from st rel frame counter held nxt show ?thesis
    by (simp add: Stop_isFrameAcquired Start_isFrameAcquired Release_fields)
qed

theorem Duplicate_early_return_witness:
  "dupl ready_session \<noteq> None \<and> device ready_session \<noteq> None \<and>
   \<not> FAILED (acquireNextFrameHr (tick_ok\<lparr>compatibleSharedTexture := None\<rparr>)) \<and>
   compatibleSharedTexture (tick_ok\<lparr>compatibleSharedTexture := None\<rparr>) = None \<and>
   state (Duplicate 16 (tick_ok\<lparr>compatibleSharedTexture := None\<rparr>) ready_session) = Ready \<and>
   GetLastFrame (Duplicate 16 (tick_ok\<lparr>compatibleSharedTexture := None\<rparr>) ready_session)
     = GetLastFrame ready_session \<and>
   isFrameAcquired (Duplicate 16 (tick_ok\<lparr>compatibleSharedTexture := None\<rparr>) ready_session)"
  using Duplicate_early_return [where s = ready_session
      and e = "tick_ok\<lparr>compatibleSharedTexture := None\<rparr>" and t = 16 and t' = 16 and e' = tick_ok]
  by (simp add: ready_session_fields Release_state tick_ok_def FAILED_def hresult_defs)

section \<open>Sequence ids of the published snapshots\<close>

lemma Duplicate_successful:
  assumes "hasHandles s" and "successful e"
  shows "sequenceId (lastFrame (Duplicate t e s)) = lastFrameId s"
    and "lastFrameId (Duplicate t e s) = lastFrameId s + 1"
    and "buffer (metaData (Duplicate t e s)) =
      ExpandIfNeeded (TotalMetadataBufferSize (acquiredFrameInfo e)) (buffer (metaData s))"
    and "hasHandles (Duplicate t e s)"
proof -
  from assms(1) have h: "dupl s \<noteq> None" "device s \<noteq> None"
    by (simp_all add: hasHandles_def)
  from assms(2) obtain tex where e: "\<not> FAILED (acquireNextFrameHr e)" "\<not> FAILED (resourceAsHr e)"
    "compatibleSharedTexture e = Some tex"
    by (auto simp add: successful_def)
  note D = Duplicate_with_handles [OF h, of t e]
  show "sequenceId (lastFrame (Duplicate t e s)) = lastFrameId s"
    by (simp add: D e)
  show "lastFrameId (Duplicate t e s) = lastFrameId s + 1"
    by (simp add: D e)
  show "buffer (metaData (Duplicate t e s)) =
      ExpandIfNeeded (TotalMetadataBufferSize (acquiredFrameInfo e)) (buffer (metaData s))"
    by (simp add: D e UpdateMetadata_fields UpdateCursor_fields emit_fields Release_fields)
  show "hasHandles (Duplicate t e s)"
    using assms(1) by (simp add: hasHandles_def Duplicate_handles_kept)
qed

lemma Duplicate_unsuccessful:
  assumes "\<not> (hasHandles s \<and> successful e)"
  shows "lastFrame (Duplicate t e s) = lastFrame s"
    and "lastFrameId (Duplicate t e s) = lastFrameId s"
    and "metaData (Duplicate t e s) = metaData s"
proof -
  have "lastFrame (Duplicate t e s) = lastFrame s \<and> lastFrameId (Duplicate t e s) = lastFrameId s
      \<and> metaData (Duplicate t e s) = metaData s"
  proof (cases "hasHandles s")
    case False
    then show ?thesis
      by (auto simp add: hasHandles_def Duplicate_def)
  next
    case True
    then have h: "dupl s \<noteq> None" "device s \<noteq> None"
      by (simp_all add: hasHandles_def)
    from True assms have "FAILED (acquireNextFrameHr e) \<or> FAILED (resourceAsHr e) \<or>
        compatibleSharedTexture e = None"
      by (simp add: successful_def)
    then show ?thesis
      by (auto simp add: Duplicate_with_handles [OF h] emit_fields Release_fields)
  qed
  then show "lastFrame (Duplicate t e s) = lastFrame s"
    and "lastFrameId (Duplicate t e s) = lastFrameId s"
    and "metaData (Duplicate t e s) = metaData s"
    by simp_all
qed

lemma publishedIds_formula:
  "hasHandles s \<Longrightarrow> \<forall>e\<in>set es. successful e \<Longrightarrow>
     publishedIds t es s = map (\<lambda>k. lastFrameId s + of_nat k) [0..<length es]"
proof (induction es arbitrary: s)
  case Nil
  then show ?case by simp
next
  case (Cons e es)
  from Cons.prems have e: "successful e" and es: "\<forall>x\<in>set es. successful x"
    by simp_all
  note step = Duplicate_successful [OF Cons.prems(1) e, of t]
  have "publishedIds t es (Duplicate t e s) =
      map (\<lambda>k. lastFrameId (Duplicate t e s) + of_nat k) [0..<length es]"
    by (rule Cons.IH [OF step(4) es])
  then show ?case
    by (simp add: step GetLastFrame_def map_upt_Suc add.assoc del: upt_Suc)
qed

lemma unat_counter_plus:
  assumes "unat (c::UINT) + k < 2 ^ 32"
  shows "unat (c + of_nat k) = unat c + k"
proof -
  from assms have k: "k < 2 ^ 32"
    by simp
  then have "unat (of_nat k :: UINT) = k"
    by (simp add: unat_of_nat)
  with assms show ?thesis
    by (simp add: unat_word_ariths)
qed

lemma counter_strictly_increasing:
  assumes "unat (c::UINT) + n \<le> 2 ^ 32"
  shows "sorted_wrt (<) (map (\<lambda>k. c + of_nat k) [0..<n])"
proof -
  have "c + of_nat i < c + of_nat j" if "i < j" and "j < n" for i j
  proof -
    from that assms have "unat c + i < 2 ^ 32" and "unat c + j < 2 ^ 32"
      by simp_all
    then have "unat (c + of_nat i) = unat c + i" and "unat (c + of_nat j) = unat c + j"
      by (simp_all add: unat_counter_plus)
    with that show ?thesis
      by (simp add: word_less_nat_alt)
  qed
  then show ?thesis
    by (simp add: sorted_wrt_iff_nth_less)
qed

lemma sorted_map_upt_nth:
  assumes "sorted_wrt (<) (map f [0..<n])" and "i < j" and "j < n"
  shows "f i < f j"
  using assms by (auto simp add: sorted_wrt_iff_nth_less)

lemma ready_session_hasHandles: "hasHandles ready_session"
  by (simp add: hasHandles_def ready_session_fields)

lemma tick_ok_successful: "successful tick_ok"
  by (simp add: successful_def tick_ok_def FAILED_codes)

text \<open>
  The claim C6 as stated, that the published sequence id increases strictly across every
  sequence of successful ticks, fails when the 32-bit counter wraps around: from the
  constructed session, whose counter is 0, the ids published by \<open>2 ^ 32 + 1\<close> successful
  ticks are not strictly increasing; and with the counter at \<open>2 ^ 32 - 1\<close>, two
  successful ticks publish the ids \<open>2 ^ 32 - 1\<close> and then 0.
\<close>

theorem publishedIds_wrap_counterexample:
  "hasHandles ready_session \<and> successful tick_ok \<and> lastFrameId ready_session = 0 \<and>
   \<not> sorted_wrt (<) (publishedIds 16 (replicate 4294967297 tick_ok) ready_session) \<and>
   hasHandles (ready_session\<lparr>lastFrameId := 4294967295\<rparr>) \<and>
   publishedIds 16 [tick_ok, tick_ok] (ready_session\<lparr>lastFrameId := 4294967295\<rparr>) = [4294967295, 0] \<and>
   \<not> sorted_wrt (<) (publishedIds 16 [tick_ok, tick_ok] (ready_session\<lparr>lastFrameId := 4294967295\<rparr>))"
proof -
  have all: "\<forall>e\<in>set (replicate n tick_ok). successful e" for n
    by (simp add: tick_ok_successful)
  have ids: "publishedIds 16 (replicate n tick_ok) ready_session =
      map (\<lambda>k. 0 + of_nat k) [0..<n]" for n
    using publishedIds_formula [OF ready_session_hasHandles all, of 16 n]
    by (simp only: ready_session_fields length_replicate)
  have long: "\<not> sorted_wrt (<) (publishedIds 16 (replicate 4294967297 tick_ok) ready_session)"
  proof
    assume "sorted_wrt (<) (publishedIds 16 (replicate 4294967297 tick_ok) ready_session)"
    then have "sorted_wrt (<) (map (\<lambda>k. (0::UINT) + of_nat k) [0..<4294967297])"
      by (simp only: ids)
    then have "(0::UINT) + of_nat 4294967295 < 0 + of_nat 4294967296"
      by (rule sorted_map_upt_nth) simp_all
    then show False
      by simp
  qed
  have h: "hasHandles (ready_session\<lparr>lastFrameId := 4294967295\<rparr>)"
    using ready_session_hasHandles by (simp add: hasHandles_def)
  have short: "publishedIds 16 [tick_ok, tick_ok] (ready_session\<lparr>lastFrameId := 4294967295\<rparr>)
      = [4294967295, 0]"
    using publishedIds_formula [OF h, of "[tick_ok, tick_ok]" 16]
    by (simp add: tick_ok_successful upt_rec)
  have ns: "\<not> sorted_wrt (<)
      (publishedIds 16 [tick_ok, tick_ok] (ready_session\<lparr>lastFrameId := 4294967295\<rparr>))"
    unfolding short by simp
  show ?thesis
    by (intro conjI ready_session_hasHandles tick_ok_successful ready_session_fields(5) long h
        short ns)
qed

text \<open>
  Claim C6, amended. Across a sequence of successful ticks, each tick publishes one
  snapshot whose sequence id is the counter's value, and the counter then advances by one
  modulo \<open>2 ^ 32\<close>: the \<open>k\<close>-th published id is the starting counter plus \<open>k\<close>. The
  ids are strictly increasing as long as the counter does not wrap around (starting
  counter plus number of ticks at most \<open>2 ^ 32\<close>), and two consecutive ids always differ.
\<close>

theorem publishedIds_successful:
  assumes "hasHandles s" and "\<forall>e\<in>set es. successful e"
  shows "publishedIds t es s = map (\<lambda>k. lastFrameId s + of_nat k) [0..<length es] \<and>
         (unat (lastFrameId s) + length es \<le> 2 ^ 32 \<longrightarrow> sorted_wrt (<) (publishedIds t es s)) \<and>
         (\<forall>i. Suc i < length es \<longrightarrow>
            publishedIds t es s ! Suc i = publishedIds t es s ! i + 1 \<and>
            publishedIds t es s ! Suc i \<noteq> publishedIds t es s ! i)"
proof -
  note f = publishedIds_formula [OF assms, of t]
  have "sorted_wrt (<) (publishedIds t es s)" if "unat (lastFrameId s) + length es \<le> 2 ^ 32"
    using counter_strictly_increasing [OF that] by (simp add: f)
  moreover have "publishedIds t es s ! Suc i = publishedIds t es s ! i + 1 \<and>
      publishedIds t es s ! Suc i \<noteq> publishedIds t es s ! i" if "Suc i < length es" for i
    using that by (simp add: f add.assoc)
  ultimately show ?thesis
    using f by blast
qed

theorem publishedIds_successful_witness:
  "hasHandles ready_session \<and> successful tick_ok \<and>
   unat (lastFrameId ready_session) + length [tick_ok, tick_ok, tick_ok] \<le> 2 ^ 32 \<and>
   publishedIds 16 [tick_ok, tick_ok, tick_ok] ready_session = [0, 1, 2] \<and>
   sorted_wrt (<) (publishedIds 16 [tick_ok, tick_ok, tick_ok] ready_session)"
proof -
  have all: "\<forall>e\<in>set [tick_ok, tick_ok, tick_ok]. successful e"
    by (simp add: tick_ok_successful)
  have bound: "unat (lastFrameId ready_session) + length [tick_ok, tick_ok, tick_ok] \<le> 2 ^ 32"
    by (simp add: ready_session_fields)
  note T = publishedIds_successful [OF ready_session_hasHandles all, of 16]
  from T have ids: "publishedIds 16 [tick_ok, tick_ok, tick_ok] ready_session = [0, 1, 2]"
    by (simp add: ready_session_fields upt_rec del: publishedIds.simps)
  from T bound have inc: "sorted_wrt (<) (publishedIds 16 [tick_ok, tick_ok, tick_ok] ready_session)"
    by blast
  show ?thesis
    by (intro conjI ready_session_hasHandles tick_ok_successful bound ids inc)
qed

section \<open>Capacity of the metadata buffer\<close>

lemma Duplicate_Size:
  "Size (buffer (metaData (Duplicate t e s))) =
     (if hasHandles s \<and> successful e
      then max (TotalMetadataBufferSize (acquiredFrameInfo e)) (Size (buffer (metaData s)))
      else Size (buffer (metaData s)))"
proof (cases "hasHandles s \<and> successful e")
  case True
  then show ?thesis
    by (simp add: Duplicate_successful(3) ExpandIfNeeded_Size)
next
  case False
  from Duplicate_unsuccessful(3) [OF False] have "metaData (Duplicate t e s) = metaData s" .
  with False show ?thesis
    by auto
qed

lemma hasHandles_Duplicate: "hasHandles (Duplicate t e s) = hasHandles s"
  by (simp add: hasHandles_def Duplicate_handles_kept)

lemma ticks_Size:
  "Size (buffer (metaData (ticks t es s))) =
     fold max (if hasHandles s then requestedSizes es else []) (Size (buffer (metaData s)))"
proof (induction es arbitrary: s)
  case Nil
  then show ?case
    by (simp add: requestedSizes_def)
next
  case (Cons e es)
  show ?case
    by (simp add: Cons.IH hasHandles_Duplicate Duplicate_Size requestedSizes_def)
qed

lemma fold_max_Max:
  "fold max xs (c::UINT) = Max (insert c (set xs))"
proof -
  have "Max (set (c # xs)) = fold max xs c"
    by (rule Max.set_eq_fold)
  then show ?thesis
    by simp
qed

text \<open>
  Claim C7. The capacity of the metadata buffer never decreases: no tick lowers it, and
  after any sequence of ticks it is the largest of the capacity at the start and the sizes
  requested of it since, which are the \<^verbatim>\<open>TotalMetadataBufferSize\<close> values of the ticks
  that reached the metadata update; a smaller size after a larger one changes nothing.
\<close>

theorem metadata_buffer_capacity:
  "Size (buffer (metaData s)) \<le> Size (buffer (metaData (Duplicate t e s))) \<and>
   Size (buffer (metaData s)) \<le> Size (buffer (metaData (ticks t es s))) \<and>
   Size (buffer (metaData (ticks t es s))) =
     Max (insert (Size (buffer (metaData s)))
            (set (if hasHandles s then requestedSizes es else [])))"
proof -
  have one: "Size (buffer (metaData s)) \<le> Size (buffer (metaData (Duplicate t e s)))"
    by (simp add: Duplicate_Size)
  have many: "Size (buffer (metaData (ticks t es s))) =
      Max (insert (Size (buffer (metaData s)))
             (set (if hasHandles s then requestedSizes es else [])))"
    by (simp only: ticks_Size fold_max_Max)
  have "Size (buffer (metaData s)) \<le> Size (buffer (metaData (ticks t es s)))"
    unfolding many by (rule Max_ge) simp_all
  with one many show ?thesis
    by blast
qed

theorem metadata_buffer_capacity_witness:
  "hasHandles ready_session \<and>
   requestedSizes [tick_ok,
      tick_ok\<lparr>acquiredFrameInfo := (acquiredFrameInfo tick_ok)\<lparr>TotalMetadataBufferSize := 1024\<rparr>\<rparr>]
     = [4096, 1024] \<and>
   Size (buffer (metaData (ticks 16 [tick_ok,
      tick_ok\<lparr>acquiredFrameInfo := (acquiredFrameInfo tick_ok)\<lparr>TotalMetadataBufferSize := 1024\<rparr>\<rparr>]
      ready_session))) = 4096"
proof -
  let ?es = "[tick_ok,
      tick_ok\<lparr>acquiredFrameInfo := (acquiredFrameInfo tick_ok)\<lparr>TotalMetadataBufferSize := 1024\<rparr>\<rparr>]"
  have req: "requestedSizes ?es = [4096, 1024]"
    by (simp add: requestedSizes_def successful_def tick_ok_def FAILED_codes)
  have "Size (buffer (metaData (ticks 16 ?es ready_session))) = 4096"
    using metadata_buffer_capacity [of ready_session 16 tick_ok ?es]
    by (simp add: req ready_session_hasHandles ready_session_fields Size_def del: ticks.simps)
  with req show ?thesis
    by (simp add: ready_session_hasHandles del: ticks.simps)
qed

section \<open>Start, Stop and the capture thread\<close>

lemma Stop_thread:
  "thread (Stop s) = NotJoinable"
  "liveThreads (Stop s) = (if thread s = Joinable then liveThreads s - 1 else liveThreads s)"
  "trace (Stop s) = trace s @ (if thread s = Joinable then [ThreadJoined] else [])"
  "shouldRun (Stop s) = False" "state (Stop s) = state s"
  by (cases "thread s"; simp add: Stop_def Let_def emit_fields)+

lemma oneThread_Stop: "oneThread s \<Longrightarrow> oneThread (Stop s)"
  by (simp add: oneThread_def Stop_thread)

lemma oneThread_Start: "oneThread s \<Longrightarrow> oneThread (Start s)"
  by (simp add: oneThread_def Start_def Let_def Stop_thread emit_fields)

lemma Duplicate_thread:
  "thread (Duplicate t e s) = thread s \<and> liveThreads (Duplicate t e s) = liveThreads s"
proof (cases "dupl s = None \<or> device s = None")
  case True
  then show ?thesis
    by (simp add: Duplicate_def)
next
  case False
  then have h: "dupl s \<noteq> None" "device s \<noteq> None"
    by simp_all
  show ?thesis
    by (simp add: Duplicate_with_handles [OF h] emit_fields Release_fields UpdateMetadata_fields
        UpdateCursor_fields split: option.split)
qed

lemma oneThread_perform: "oneThread s \<Longrightarrow> oneThread (perform x s)"
proof (cases x)
  case (ThreadTick t e)
  assume "oneThread s"
  then show ?thesis
    by (simp add: ThreadTick oneThread_def Duplicate_thread)
qed (simp_all add: oneThread_Stop oneThread_Start, simp_all add: oneThread_def captureThreadEntry_def
    captureThreadExit_def)

lemma oneThread_performAll: "oneThread s \<Longrightarrow> oneThread (performAll xs s)"
  by (induction xs arbitrary: s) (simp_all add: oneThread_perform)

text \<open>
  The claim C5 as stated has \<^verbatim>\<open>Start()\<close>, called while the session is running, perform
  a full \<^verbatim>\<open>Stop()\<close> and restart. On the running session (started, its thread in its
  body) \<^verbatim>\<open>Start()\<close> returns at once: the run flag is still set, the thread has not
  been joined and none has been created, which is not what \<^verbatim>\<open>Stop()\<close> followed by the
  creation of a thread gives.
\<close>

theorem Start_while_running_counterexample:
  "IsRunning running_session \<and> thread running_session = Joinable \<and>
   Start running_session = running_session \<and>
   shouldRun (Start running_session) \<and>
   ThreadJoined \<notin> set (trace (Start running_session)) \<and>
   trace (Start running_session) = trace running_session \<and>
   Start running_session \<noteq>
     (emit ThreadCreated (Stop running_session))
       \<lparr>thread := Joinable, liveThreads := liveThreads (Stop running_session) + 1\<rparr>"
proof -
  have run: "state running_session = Running" "thread running_session = Joinable"
    "shouldRun running_session"
    "trace running_session = [DebugLog ''Duplicator::Initialize() => OK.'', ThreadCreated]"
    by (simp_all add: running_session_eval ready_session_eval fresh_def)
  have noop: "Start running_session = running_session"
    by (simp add: Start_def run)
  let ?restarted = "(emit ThreadCreated (Stop running_session))
      \<lparr>thread := Joinable, liveThreads := liveThreads (Stop running_session) + 1\<rparr>"
  have "\<not> shouldRun ?restarted"
    by (simp add: Stop_thread emit_fields)
  with run(3) have "shouldRun running_session \<noteq> shouldRun ?restarted"
    by simp
  then have "running_session \<noteq> ?restarted"
    by (rule contrapos_nn) (erule arg_cong)
  then have "Start running_session \<noteq>
      (emit ThreadCreated (Stop running_session))
        \<lparr>thread := Joinable, liveThreads := liveThreads (Stop running_session) + 1\<rparr>"
    unfolding noop .
  with run show ?thesis
    by (simp add: noop IsRunning_def)
qed

text \<open>
  Claim C5, amended. \<^verbatim>\<open>Start()\<close> does nothing unless the state is \<open>Ready\<close>; called
  while the state is \<open>Running\<close> it neither stops nor restarts the session. When the
  state is \<open>Ready\<close> it first performs \<^verbatim>\<open>Stop()\<close>, which clears the run flag and joins
  the existing capture thread when it is joinable, and only then creates the new thread.
  So across every sequence of \<^verbatim>\<open>Start()\<close> and \<^verbatim>\<open>Stop()\<close> calls and steps of the
  capture thread, at most one capture thread is created and not yet joined.
\<close>

theorem Start_guard_and_join:
  "(state s \<noteq> Ready \<longrightarrow> Start s = s) \<and>
   (state s = Ready \<longrightarrow>
      trace (Start s) =
        trace s @ (if thread s = Joinable then [ThreadJoined, ThreadCreated] else [ThreadCreated]) \<and>
      thread (Start s) = Joinable \<and> \<not> shouldRun (Start s)) \<and>
   (oneThread s \<longrightarrow> oneThread (performAll xs s) \<and> liveThreads (performAll xs s) \<le> 1)"
proof -
  have a: "state s \<noteq> Ready \<longrightarrow> Start s = s"
    by (simp add: Start_def)
  have b: "state s = Ready \<longrightarrow>
      trace (Start s) =
        trace s @ (if thread s = Joinable then [ThreadJoined, ThreadCreated] else [ThreadCreated]) \<and>
      thread (Start s) = Joinable \<and> \<not> shouldRun (Start s)"
    by (simp add: Start_def Let_def emit_fields Stop_thread)
  have c: "oneThread s \<longrightarrow> oneThread (performAll xs s) \<and> liveThreads (performAll xs s) \<le> 1"
  proof
    assume "oneThread s"
    then have "oneThread (performAll xs s)"
      by (rule oneThread_performAll)
    then show "oneThread (performAll xs s) \<and> liveThreads (performAll xs s) \<le> 1"
      by (simp add: oneThread_def)
  qed
  show ?thesis
    by (intro conjI a b c)
qed

theorem Start_guard_and_join_witness:
  "state running_session \<noteq> Ready \<and> Start running_session = running_session \<and>
   state (captureThreadExit running_session) = Ready \<and>
   thread (captureThreadExit running_session) = Joinable \<and>
   trace (Start (captureThreadExit running_session)) =
     trace running_session @ [ThreadJoined, ThreadCreated] \<and>
   oneThread ready_session \<and>
   liveThreads (performAll [CallStart, ThreadEntry, ThreadTick 16 tick_ok, ThreadExit, CallStart,
      CallStop] ready_session) \<le> 1"
  using Start_guard_and_join [of running_session "[]"]
    Start_guard_and_join [of "captureThreadExit running_session" "[]"]
    Start_guard_and_join [of ready_session "[CallStart, ThreadEntry, ThreadTick 16 tick_ok,
      ThreadExit, CallStart, CallStop]"]
  by (simp add: running_session_eval captureThreadExit_def ready_session_fields oneThread_def
      del: performAll.simps)

end
